theory Spec2Isabelle
  imports Complex_Main
begin

section \<open>Python values\<close>

text \<open>
  The integration handles three kinds of dynamically typed data: decoded JSON bodies
  (\<open>await resp.json()\<close>), the values a push feed hands out, and the entity attribute
  \<open>_attr_is_on\<close>, which stores whatever value was read. One datatype covers them;
  \<open>JNull\<close> is Python's \<open>None\<close>. A float is a finite rational, an infinity or NaN:
  the code only compares numbers with 0, 2 and 3, which is exact on every float.
\<close>

datatype pyfloat = NaN | Inf bool | Fin rat

datatype json =
    JNull
  | JBool bool
  | JInt int
  | JFloat pyfloat
  | JStr string
  | JList "json list"
  | JObj "(string \<times> json) list"

text \<open>The exceptions the code can meet; all of them are subclasses of \<open>Exception\<close>.\<close>

datatype exn =
    TimeoutError
  | ClientError
  | DecodeError
  | AttributeError
  | TypeError
  | ValueError

datatype 'a result = Returns 'a | Raises exn

text \<open>Truthiness, as \<open>if x\<close>, \<open>not x\<close> and \<open>x or y\<close> use it.\<close>

fun py_truthy :: "json \<Rightarrow> bool" where
  "py_truthy JNull = False"
| "py_truthy (JBool b) = b"
| "py_truthy (JInt i) = (i \<noteq> 0)"
| "py_truthy (JFloat (Fin r)) = (r \<noteq> 0)"
| "py_truthy (JFloat _) = True"
| "py_truthy (JStr s) = (s \<noteq> [])"
| "py_truthy (JList xs) = (xs \<noteq> [])"
| "py_truthy (JObj kvs) = (kvs \<noteq> [])"

text \<open>\<open>v == n\<close> for an integer literal \<open>n\<close>: numbers compare by value, \<open>True\<close> is 1.\<close>

fun py_eq_int :: "json \<Rightarrow> int \<Rightarrow> bool" where
  "py_eq_int (JInt i) n = (i = n)"
| "py_eq_int (JBool b) n = ((if b then 1 else 0) = n)"
| "py_eq_int (JFloat (Fin r)) n = (r = of_int n)"
| "py_eq_int _ n = False"

text \<open>
  \<open>v >= n\<close> for an integer literal \<open>n\<close>: defined on numbers (and booleans); on
  \<open>None\<close>, strings, lists and dicts Python 3 raises \<open>TypeError\<close>.
\<close>

fun py_ge_int :: "json \<Rightarrow> int \<Rightarrow> bool result" where
  "py_ge_int (JInt i) n = Returns (n \<le> i)"
| "py_ge_int (JBool b) n = Returns (n \<le> (if b then 1 else 0))"
| "py_ge_int (JFloat (Fin r)) n = Returns (of_int n \<le> r)"
| "py_ge_int (JFloat (Inf positive)) n = Returns positive"
| "py_ge_int (JFloat NaN) n = Returns False"
| "py_ge_int _ n = Raises TypeError"

text \<open>
  \<open>data.get(key, default)\<close> on a decoded body: a dict answers, anything else has no
  attribute \<open>get\<close>.
\<close>

fun py_get :: "json \<Rightarrow> string \<Rightarrow> json \<Rightarrow> json result" where
  "py_get (JObj kvs) k d = Returns (case map_of kvs k of None \<Rightarrow> d | Some v \<Rightarrow> v)"
| "py_get _ k d = Raises AttributeError"

text \<open>
  A value inside an f-string. A string is inserted as it is; for the other values the
  text is Python's own \<open>str()\<close>, taken as the parameter \<open>str_of\<close>.
\<close>

fun py_format :: "(json \<Rightarrow> string) \<Rightarrow> json \<Rightarrow> string" where
  "py_format str_of (JStr s) = s"
| "py_format str_of v = str_of v"

section \<open>Configuration entries and the push feed\<close>

text \<open>
  \<open>entry.data\<close> and the stored credentials are dicts of strings (the config flow's schema
  types both fields as \<open>str\<close>); a key may be missing.
\<close>

type_synonym config_data = "string \<rightharpoonup> string"

definition dict_get :: "config_data \<Rightarrow> string \<Rightarrow> string \<Rightarrow> string" where
  "dict_get d k dflt = (case d k of None \<Rightarrow> dflt | Some v \<Rightarrow> v)"

text \<open>
  The coordinator of the Shelly integration is an opaque object. It may lack the
  attribute \<open>data\<close>; its data may lack a callable \<open>get\<close> (\<open>NoLookup\<close>, which covers
  \<open>None\<close>); a lookup answers a value, \<open>None\<close> for a missing key, or raises.
\<close>

datatype feed_data = NoLookup | Lookup "string \<Rightarrow> json result"

datatype coordinator = Coordinator (data_attr: "feed_data option")

section \<open>Transport\<close>

text \<open>
  The HTTP client is \<open>aiohttp\<close>, a library outside the repository. A request is what
  the code hands to \<open>session.get\<close> or \<open>session.post\<close>: URL, query parameters, JSON body,
  credentials, timeout in seconds.
\<close>

datatype http_method = GET | POST

datatype basic_auth = BasicAuth (login: string) (password: string)

text \<open>
  \<open>aiohttp.BasicAuth(login=..., password=...)\<close>, the constructor of the library: it
  raises \<open>ValueError\<close> for a login that contains a colon (and for \<open>None\<close>, which a
  string never is), and gives the pair otherwise. A character of a \<open>string\<close> is one
  byte, so the credentials can always be encoded as Latin-1 afterwards.
\<close>

definition new_basic_auth :: "string \<Rightarrow> string \<Rightarrow> basic_auth result" where
  "new_basic_auth username pw =
     (if CHR '':'' \<in> set username then Raises ValueError
      else Returns (BasicAuth username pw))"

record request =
  meth :: http_method
  url :: string
  params :: "(string \<times> string) list option"
  json_payload :: "json option"
  auth :: "basic_auth option"
  timeout :: nat

text \<open>
  A response carries its status and its body; \<open>None\<close> is a body that \<open>resp.json()\<close>
  cannot decode. The network answers a request or makes the call raise. Within one
  operation the requests differ from each other, so a function of the request describes
  every behaviour of the device.
\<close>

datatype response = Response (status: int) (body: "json option")

datatype net_result = Fails exn | Answers response

type_synonym network = "request \<Rightarrow> net_result"

definition resp_json :: "response \<Rightarrow> json result" where
  "resp_json resp = (case body resp of None \<Rightarrow> Raises DecodeError | Some j \<Rightarrow> Returns j)"

section \<open>Effects\<close>

text \<open>
  What an operation leaves behind besides the entity's attributes: the records handed to
  the logger, the requests sent, and the number of calls of \<open>async_write_ha_state\<close>.
  A log record keeps the level, which message it is, and the arguments.
\<close>

datatype log_level = Debug | Info | Error

datatype log_message =
    SubscribedToCoordinator
      \<comment> \<open>"Subscribed to coordinator updates for '%s'"\<close>
  | CoordinatorUpdate
      \<comment> \<open>"Coordinator update for '%s': auth=%s"\<close>
  | StateFromCoordinatorAuthEn
      \<comment> \<open>"State from coordinator for '%s': auth_en=%s"\<close>
  | StateFromCoordinatorAuth
      \<comment> \<open>"State from coordinator for '%s': auth=%s"\<close>
  | CouldNotReadCoordinator
      \<comment> \<open>"Could not read coordinator data for '%s': %s"\<close>
  | InitialState
      \<comment> \<open>"Initial state for '%s': auth=%s"\<close>
  | InitialState401
      \<comment> \<open>"Initial state for '%s': auth=True (HTTP 401)"\<close>
  | CouldNotCheckAuth
      \<comment> \<open>"Could not check auth status for '%s': %s"\<close>
  | NoPasswordConfigured
      \<comment> \<open>"No password configured for device '%s'"\<close>
  | AuthChangedGenN
      \<comment> \<open>"Auth %s on Gen%d device '%s' at %s"\<close>
  | FailedGenN
      \<comment> \<open>"Failed to %s auth on Gen%d device '%s': HTTP %d"\<close>
  | AuthChangedGen1
      \<comment> \<open>"Auth %s on Gen1 device '%s' at %s"\<close>
  | FailedGen1
      \<comment> \<open>"Failed to %s auth on Gen1 device '%s': HTTP %d"\<close>
  | ErrorSettingAuth
      \<comment> \<open>"Error setting auth on device '%s' at %s: %s"\<close>
  | CouldNotLoadConnectivity
      \<comment> \<open>"Could not load connectivity config for '%s': %s"\<close>
  | Gen1CoIoT
      \<comment> \<open>"Gen1 CoIoT for '%s': %s"\<close>
  | Gen2WebSocket
      \<comment> \<open>"Gen2/3 WebSocket for '%s': %s"\<close>
  | Gen2WebSocketNotConfigured
      \<comment> \<open>"Gen2/3 WebSocket for '%s': Not explicitly configured"\<close>
  | ErrorGettingWebSocket
      \<comment> \<open>"Error getting Gen2/3 WebSocket for '%s': %s"\<close>

datatype log_arg = Arg json | ArgText string | ArgExn exn

datatype log_record = LogRecord (level: log_level) (message: log_message) (args: "log_arg list")

record world =
  logged :: "log_record list"
  requests :: "request list"
  ha_state_writes :: nat

text \<open>
  A piece of code runs on a state and returns a value or raises, and leaves a state in
  both cases: an exception does not undo the requests sent and the records logged
  before it.
\<close>

type_synonym ('a, 's) prog = "'s \<Rightarrow> 'a result \<times> 's"

definition returns :: "'a \<Rightarrow> ('a, 's) prog" where
  "returns v s = (Returns v, s)"

definition lift :: "'a result \<Rightarrow> ('a, 's) prog" where
  "lift r s = (r, s)"

definition and_then :: "('a, 's) prog \<Rightarrow> ('a \<Rightarrow> ('b, 's) prog) \<Rightarrow> ('b, 's) prog" where
  "and_then m f s = (case m s of (Returns v, s') \<Rightarrow> f v s' | (Raises e, s') \<Rightarrow> (Raises e, s'))"

definition try_except :: "('a, 's) prog \<Rightarrow> (exn \<Rightarrow> ('a, 's) prog) \<Rightarrow> ('a, 's) prog" where
  "try_except m handler s =
     (case m s of (Returns v, s') \<Rightarrow> (Returns v, s') | (Raises e, s') \<Rightarrow> handler e s')"

definition modify :: "('s \<Rightarrow> 's) \<Rightarrow> (unit, 's) prog" where
  "modify f s = (Returns (), f s)"

definition logger :: "log_level \<Rightarrow> log_message \<Rightarrow> log_arg list \<Rightarrow> (unit, 'a world_scheme) prog" where
  "logger lvl msg as = modify (\<lambda>s. s\<lparr>logged := logged s @ [LogRecord lvl msg as]\<rparr>)"

definition async_write_ha_state :: "(unit, 'a world_scheme) prog" where
  "async_write_ha_state = modify (\<lambda>s. s\<lparr>ha_state_writes := Suc (ha_state_writes s)\<rparr>)"

text \<open>One call of \<open>session.get\<close> or \<open>session.post\<close>: the request is sent, then answered.\<close>

definition session_request :: "network \<Rightarrow> request \<Rightarrow> (response, 'a world_scheme) prog" where
  "session_request net req s =
     (let s' = s\<lparr>requests := requests s @ [req]\<rparr>
      in case net req of Fails e \<Rightarrow> (Raises e, s') | Answers resp \<Rightarrow> (Returns resp, s'))"

section \<open>The entities\<close>

record device_info =
  device_name :: string
  host :: string
  entry :: config_data

record auth_switch = device_info +
  credentials :: config_data
  coordinator :: "coordinator option"

record switch_state = world +
  attr_is_on :: json

record sensor_state = world +
  attr_native_value :: "string option"

text \<open>The state \<open>__init__\<close> leaves: nothing read yet, nothing sent, nothing logged.\<close>

definition init_switch :: switch_state where
  "init_switch = \<lparr>logged = [], requests = [], ha_state_writes = 0, attr_is_on = JNull\<rparr>"

definition init_sensor :: sensor_state where
  "init_sensor = \<lparr>logged = [], requests = [], ha_state_writes = 0, attr_native_value = None\<rparr>"

definition reader_auth :: "string \<Rightarrow> string \<Rightarrow> basic_auth option result" where
  \<comment> \<open>\<open>auth = None; if password and username: auth = aiohttp.BasicAuth(...)\<close>\<close>
  "reader_auth username pw =
     (if pw \<noteq> [] \<and> username \<noteq> []
      then (case new_basic_auth username pw of
              Raises e \<Rightarrow> Raises e
            | Returns a \<Rightarrow> Returns (Some a))
      else Returns None)"

definition writer_auth :: "string \<Rightarrow> string \<Rightarrow> bool \<Rightarrow> basic_auth option result" where
  \<comment> \<open>in \<open>_set_auth\<close>: \<open>auth = None\<close> to enable, \<open>auth = aiohttp.BasicAuth(...)\<close> to disable\<close>
  "writer_auth username pw enable =
     (if enable then Returns None
      else (case new_basic_auth username pw of
              Raises e \<Rightarrow> Raises e
            | Returns a \<Rightarrow> Returns (Some a)))"

definition shelly_url :: "string \<Rightarrow> string \<Rightarrow> string" where
  \<comment> \<open>\<open>f"http://{self._host}<path>"\<close>\<close>
  "shelly_url h path = ''http://'' @ h @ path"

section \<open>The auth switch: reading the state\<close>

text \<open>
  \<open>ShellyAuthSwitch._update_from_coordinator\<close>. Both keys are looked up before either
  is tested; an exception inside leaves the state as it was and is logged at debug level.
\<close>

definition update_from_coordinator :: "auth_switch \<Rightarrow> (unit, switch_state) prog" where
  "update_from_coordinator self =
     try_except
       (case coordinator self of
          None \<Rightarrow> returns ()
        | Some c \<Rightarrow>
           (case data_attr c of
              None \<Rightarrow> returns ()
            | Some NoLookup \<Rightarrow> returns ()
            | Some (Lookup get) \<Rightarrow>
                and_then (lift (get ''auth_en'')) (\<lambda>auth_en.
                and_then (lift (get ''auth'')) (\<lambda>auth.
                  if auth_en \<noteq> JNull then
                    and_then (modify (\<lambda>s. s\<lparr>attr_is_on := auth_en\<rparr>)) (\<lambda>_.
                      logger Debug StateFromCoordinatorAuthEn
                        [ArgText (device_name self), Arg auth_en])
                  else if auth \<noteq> JNull then
                    and_then (modify (\<lambda>s. s\<lparr>attr_is_on := auth\<rparr>)) (\<lambda>_.
                      logger Debug StateFromCoordinatorAuth
                        [ArgText (device_name self), Arg auth])
                  else returns ()))))
       (\<lambda>err. logger Debug CouldNotReadCoordinator [ArgText (device_name self), ArgExn err])"

text \<open>
  \<open>ShellyAuthSwitch._check_auth_status\<close>: inside the \<open>try\<close>, the reader credentials
  of the device's own config entry are built when both are set, then one GET of
  \<open>/shelly\<close> is sent.
\<close>

definition check_auth_request :: "string \<Rightarrow> basic_auth option \<Rightarrow> request" where
  "check_auth_request h a =
     \<lparr>meth = GET, url = shelly_url h ''/shelly'', params = None,
      json_payload = None, auth = a, timeout = 3\<rparr>"

definition check_auth_status :: "network \<Rightarrow> auth_switch \<Rightarrow> (unit, switch_state) prog" where
  "check_auth_status net self =
     try_except
       (and_then (lift (reader_auth (dict_get (entry self) ''username'' [])
                                    (dict_get (entry self) ''password'' []))) (\<lambda>a.
        and_then (session_request net (check_auth_request (host self) a)) (\<lambda>resp.
          if status resp = 200 then
            and_then (lift (resp_json resp)) (\<lambda>data.
            and_then (lift (py_get data ''gen'' JNull)) (\<lambda>gen.
            and_then (lift (if py_eq_int gen 2 \<or> py_eq_int gen 3
                            then py_get data ''auth_en'' JNull
                            else py_get data ''auth'' JNull)) (\<lambda>auth_enabled.
              if auth_enabled \<noteq> JNull then
                and_then (modify (\<lambda>s. s\<lparr>attr_is_on := auth_enabled\<rparr>)) (\<lambda>_.
                  logger Debug InitialState [ArgText (device_name self), Arg auth_enabled])
              else
                and_then (lift (py_get data ''auth_en'' JNull)) (\<lambda>a.
                and_then (if py_truthy a then returns a
                          else lift (py_get data ''auth'' JNull)) (\<lambda>auth_enabled.
                  if auth_enabled \<noteq> JNull
                  then modify (\<lambda>s. s\<lparr>attr_is_on := auth_enabled\<rparr>)
                  else returns ())))))
          else if status resp = 401 then
            and_then (modify (\<lambda>s. s\<lparr>attr_is_on := JBool True\<rparr>)) (\<lambda>_.
              logger Debug InitialState401 [ArgText (device_name self)])
          else returns ())))
       (\<lambda>err. logger Debug CouldNotCheckAuth [ArgText (device_name self), ArgExn err])"

text \<open>
  \<open>ShellyAuthSwitch.async_added_to_hass\<close>, the read at attachment time. Registering
  the listener belongs to the platform; of that branch the model keeps the debug record.
\<close>

definition switch_added_to_hass :: "network \<Rightarrow> auth_switch \<Rightarrow> (unit, switch_state) prog" where
  "switch_added_to_hass net self =
     and_then
       (case coordinator self of
          None \<Rightarrow> check_auth_status net self
        | Some c \<Rightarrow>
           (case data_attr c of
              None \<Rightarrow> check_auth_status net self
            | Some _ \<Rightarrow>
                and_then (update_from_coordinator self) (\<lambda>_.
                  logger Debug SubscribedToCoordinator [ArgText (device_name self)])))
       (\<lambda>_. async_write_ha_state)"

text \<open>\<open>ShellyAuthSwitch._handle_coordinator_update\<close>, the read on every feed update.\<close>

definition handle_coordinator_update :: "auth_switch \<Rightarrow> (unit, switch_state) prog" where
  "handle_coordinator_update self =
     and_then (update_from_coordinator self) (\<lambda>_.
     and_then async_write_ha_state (\<lambda>_ s.
       logger Debug CoordinatorUpdate [ArgText (device_name self), Arg (attr_is_on s)] s))"

section \<open>The auth switch: writing the state\<close>

text \<open>
  The probe of the generation: one GET of \<open>/shelly\<close> without credentials. The body of
  \<open>ShellyConnectivitySensor._detect_generation\<close> and the first block of
  \<open>ShellyAuthSwitch._set_auth\<close> are the same code: the answer is the field \<open>gen\<close> of a
  200 response, 1 when the field is missing or the status is another one, and a bare
  \<open>except\<close> turns every exception into 1.
\<close>

definition probe_request :: "string \<Rightarrow> request" where
  "probe_request h =
     \<lparr>meth = GET, url = shelly_url h ''/shelly'', params = None, json_payload = None,
      auth = None, timeout = 3\<rparr>"

definition probe_gen :: "network \<Rightarrow> string \<Rightarrow> (json, 'a world_scheme) prog" where
  "probe_gen net h =
     try_except
       (and_then (session_request net (probe_request h)) (\<lambda>resp.
          if status resp = 200 then
            and_then (lift (resp_json resp)) (\<lambda>data. lift (py_get data ''gen'' (JInt 1)))
          else returns (JInt 1)))
       (\<lambda>_. returns (JInt 1))"

text \<open>
  The mutation request of each dialect, as \<open>_set_auth\<close> builds it; \<open>a\<close> is the value of
  \<open>auth\<close>, built by \<open>writer_auth\<close> before the call.
\<close>

definition rpc_set_auth_request ::
  "string \<Rightarrow> string \<Rightarrow> string \<Rightarrow> bool \<Rightarrow> basic_auth option \<Rightarrow> request"
where
  "rpc_set_auth_request h username pw enable a =
     \<lparr>meth = POST, url = shelly_url h ''/rpc/Sys.SetAuth'', params = None,
      json_payload =
        Some (if enable then JObj [(''user'', JStr username), (''pass'', JStr pw)]
              else JObj [(''user'', JNull)]),
      auth = a, timeout = 10\<rparr>"

definition gen1_login_request ::
  "string \<Rightarrow> string \<Rightarrow> string \<Rightarrow> bool \<Rightarrow> basic_auth option \<Rightarrow> request"
where
  "gen1_login_request h username pw enable a =
     \<lparr>meth = GET, url = shelly_url h ''/settings/login'',
      params =
        Some (if enable
              then [(''enabled'', ''1''), (''username'', username), (''password'', pw)]
              else [(''enabled'', ''0'')]),
      json_payload = None, auth = a, timeout = 10\<rparr>"

definition action_word :: "bool \<Rightarrow> string" where
  \<comment> \<open>\<open>"enabled" if enable else "disabled"\<close>\<close>
  "action_word enable = (if enable then ''enabled'' else ''disabled'')"

definition verb_word :: "bool \<Rightarrow> string" where
  \<comment> \<open>\<open>"enable" if enable else "disable"\<close>\<close>
  "verb_word enable = (if enable then ''enable'' else ''disable'')"

text \<open>
  \<open>ShellyAuthSwitch._set_auth\<close>. The password check comes before the \<open>try\<close>; the
  comparison \<open>gen >= 2\<close> is inside the outer \<open>try\<close> and outside the probe's own; the
  credentials of a disable are built after the probe, inside the outer \<open>try\<close>.
\<close>

definition set_auth :: "network \<Rightarrow> auth_switch \<Rightarrow> bool \<Rightarrow> (unit, switch_state) prog" where
  "set_auth net self enable =
     (let username = dict_get (credentials self) ''username'' ''admin'';
          pw = dict_get (credentials self) ''password'' []
      in if pw = [] then
           logger Error NoPasswordConfigured [ArgText (device_name self)]
         else
           try_except
             (and_then (probe_gen net (host self)) (\<lambda>gen.
              and_then (lift (py_ge_int gen 2)) (\<lambda>rpc.
                if rpc then
                  and_then (lift (writer_auth username pw enable)) (\<lambda>a.
                  and_then (session_request net
                              (rpc_set_auth_request (host self) username pw enable a))
                    (\<lambda>resp.
                      if status resp = 200 then
                        and_then (logger Info AuthChangedGenN
                                    [ArgText (action_word enable), Arg gen,
                                     ArgText (device_name self), ArgText (host self)]) (\<lambda>_.
                        and_then (modify (\<lambda>s. s\<lparr>attr_is_on := JBool enable\<rparr>)) (\<lambda>_.
                          async_write_ha_state))
                      else
                        logger Error FailedGenN
                          [ArgText (verb_word enable), Arg gen,
                           ArgText (device_name self), Arg (JInt (status resp))]))
                else
                  and_then (lift (writer_auth username pw enable)) (\<lambda>a.
                  and_then (session_request net
                              (gen1_login_request (host self) username pw enable a))
                    (\<lambda>resp.
                      if status resp = 200 then
                        and_then (logger Info AuthChangedGen1
                                    [ArgText (action_word enable),
                                     ArgText (device_name self), ArgText (host self)]) (\<lambda>_.
                        and_then (modify (\<lambda>s. s\<lparr>attr_is_on := JBool enable\<rparr>)) (\<lambda>_.
                          async_write_ha_state))
                      else
                        logger Error FailedGen1
                          [ArgText (verb_word enable),
                           ArgText (device_name self), Arg (JInt (status resp))])))))
             (\<lambda>err. logger Error ErrorSettingAuth
                      [ArgText (device_name self), ArgText (host self), ArgExn err]))"

section \<open>The connectivity sensor\<close>

text \<open>\<open>ShellyConnectivitySensor._detect_generation\<close>.\<close>

definition detect_generation :: "network \<Rightarrow> device_info \<Rightarrow> (json, sensor_state) prog" where
  "detect_generation net self = probe_gen net (host self)"

definition settings_request :: "string \<Rightarrow> basic_auth option \<Rightarrow> request" where
  "settings_request h a =
     \<lparr>meth = GET, url = shelly_url h ''/settings'', params = None, json_payload = None,
      auth = a, timeout = 5\<rparr>"

definition get_config_request :: "string \<Rightarrow> basic_auth option \<Rightarrow> request" where
  "get_config_request h a =
     \<lparr>meth = POST, url = shelly_url h ''/rpc/Sys.GetConfig'', params = None,
      json_payload = Some (JObj []), auth = a, timeout = 5\<rparr>"

text \<open>\<open>ShellyConnectivitySensor._load_gen1_coiot\<close>: no handler of its own.\<close>

definition load_gen1_coiot ::
  "(json \<Rightarrow> string) \<Rightarrow> network \<Rightarrow> device_info \<Rightarrow> string \<Rightarrow> string \<Rightarrow> (unit, sensor_state) prog"
where
  "load_gen1_coiot str_of net self username pw =
     and_then (lift (reader_auth username pw)) (\<lambda>a.
     and_then (session_request net (settings_request (host self) a)) (\<lambda>resp.
       if status resp = 200 then
         and_then (lift (resp_json resp)) (\<lambda>data.
         and_then (lift (py_get data ''coiot'' (JObj []))) (\<lambda>coiot.
         and_then (lift (py_get coiot ''peer'' (JStr []))) (\<lambda>peer.
         and_then
           (if \<not> py_truthy peer \<or> peer = JStr []
            then modify (\<lambda>s. s\<lparr>attr_native_value := Some ''CoIoT: mcast (multicast)''\<rparr>)
            else modify (\<lambda>s. s\<lparr>attr_native_value :=
                                  Some (''CoIoT: unicast '' @ py_format str_of peer)\<rparr>))
           (\<lambda>_ s. logger Debug Gen1CoIoT
                     [ArgText (device_name self),
                      ArgText (case attr_native_value s of None \<Rightarrow> ''None'' | Some v \<Rightarrow> v)] s))))
       else if status resp = 401 then
         modify (\<lambda>s. s\<lparr>attr_native_value := Some ''CoIoT: Unknown (auth required)''\<rparr>)
       else returns ()))"

text \<open>
  \<open>ShellyConnectivitySensor._load_gen2_websocket\<close>: its own handler, which begins
  after the credentials are built.
\<close>

definition load_gen2_websocket ::
  "(json \<Rightarrow> string) \<Rightarrow> network \<Rightarrow> device_info \<Rightarrow> string \<Rightarrow> string \<Rightarrow> (unit, sensor_state) prog"
where
  "load_gen2_websocket str_of net self username pw =
     and_then (lift (reader_auth username pw)) (\<lambda>a.
     try_except
       (and_then (session_request net (get_config_request (host self) a))
          (\<lambda>resp.
            if status resp = 200 then
              and_then (lift (resp_json resp)) (\<lambda>data.
              and_then (lift (py_get data ''ws'' (JObj []))) (\<lambda>ws_config.
              and_then (lift (py_get ws_config ''server'' (JStr []))) (\<lambda>ws_server.
                if py_truthy ws_server then
                  and_then (modify (\<lambda>s. s\<lparr>attr_native_value :=
                                      Some (''WebSocket: '' @ py_format str_of ws_server)\<rparr>)) (\<lambda>_.
                    logger Debug Gen2WebSocket [ArgText (device_name self), Arg ws_server])
                else
                  and_then (modify (\<lambda>s. s\<lparr>attr_native_value :=
                                      Some ''WebSocket: Not configured (uses mDNS)''\<rparr>)) (\<lambda>_.
                    logger Debug Gen2WebSocketNotConfigured [ArgText (device_name self)]))))
            else if status resp = 401 then
              modify (\<lambda>s. s\<lparr>attr_native_value := Some ''WebSocket: Unknown (auth required)''\<rparr>)
            else returns ()))
       (\<lambda>err.
          and_then (logger Debug ErrorGettingWebSocket [ArgText (device_name self), ArgExn err])
            (\<lambda>_. modify (\<lambda>s. s\<lparr>attr_native_value := Some ''WebSocket: Auto-discovery (mDNS)''\<rparr>))))"

text \<open>\<open>ShellyConnectivitySensor._load_connectivity_config\<close>.\<close>

definition load_connectivity_config ::
  "(json \<Rightarrow> string) \<Rightarrow> network \<Rightarrow> device_info \<Rightarrow> (unit, sensor_state) prog"
where
  "load_connectivity_config str_of net self =
     (let username = dict_get (entry self) ''username'' [];
          pw = dict_get (entry self) ''password'' []
      in try_except
           (and_then (detect_generation net self) (\<lambda>gen.
            and_then (lift (py_ge_int gen 2)) (\<lambda>rpc.
              if rpc then load_gen2_websocket str_of net self username pw
              else load_gen1_coiot str_of net self username pw)))
           (\<lambda>err.
              and_then (logger Debug CouldNotLoadConnectivity
                          [ArgText (device_name self), ArgExn err])
                (\<lambda>_. modify (\<lambda>s. s\<lparr>attr_native_value := Some ''Unknown''\<rparr>))))"


section \<open>Concrete devices and networks\<close>

text \<open>
  One device record, with and without a push feed, and the networks of the scenarios:
  a Gen1 device, a Gen3 device, a host that never answers, a device whose settings call
  fails with a server error, a device that reports its generation as a string, and two
  hosts that answer every request with status 200 and a body that is not a JSON object
  (\<open>garbled_net\<close>: not decodable; \<open>list_net\<close>: an empty list).
  \<open>colon_plug\<close> and \<open>colon_switch\<close> are the same device with user names that hold a colon.
  Every value formatted in these scenarios is a string, so \<open>str()\<close> is never consulted
  there; \<open>str_unused\<close> stands in for it.
\<close>

definition str_unused :: "json \<Rightarrow> string" where
  "str_unused v = []"

definition plug :: device_info where
  "plug = \<lparr>device_name = ''plug'', host = ''10.0.0.7'', entry = Map.empty\<rparr>"

definition plug_switch :: auth_switch where
  "plug_switch =
     \<lparr>device_name = ''plug'', host = ''10.0.0.7'', entry = Map.empty,
      credentials = [''password'' \<mapsto> ''s3cret''], coordinator = None\<rparr>"

definition plug_switch_reader :: auth_switch where
  "plug_switch_reader =
     plug_switch\<lparr>entry := [''username'' \<mapsto> ''admin'', ''password'' \<mapsto> ''pw'']\<rparr>"

definition colon_plug :: device_info where
  "colon_plug =
     \<lparr>device_name = ''plug'', host = ''10.0.0.7'',
      entry = [''username'' \<mapsto> ''ad:min'', ''password'' \<mapsto> ''pw'']\<rparr>"

definition colon_switch :: auth_switch where
  "colon_switch =
     \<lparr>device_name = ''plug'', host = ''10.0.0.7'',
      entry = [''username'' \<mapsto> ''ad:min'', ''password'' \<mapsto> ''pw''],
      credentials = [''username'' \<mapsto> ''ad:min'', ''password'' \<mapsto> ''s3cret''],
      coordinator = None\<rparr>"

definition feed_both :: "string \<Rightarrow> json result" where
  "feed_both k =
     Returns (if k = ''auth_en'' then JBool False
              else if k = ''auth'' then JBool True else JNull)"

definition feed_empty :: "string \<Rightarrow> json result" where
  "feed_empty k = Returns JNull"

definition plug_switch_fed :: auth_switch where
  "plug_switch_fed = plug_switch\<lparr>coordinator := Some (Coordinator (Some (Lookup feed_both)))\<rparr>"

definition plug_switch_empty_feed :: auth_switch where
  "plug_switch_empty_feed =
     plug_switch\<lparr>coordinator := Some (Coordinator (Some (Lookup feed_empty)))\<rparr>"

definition gen1_net :: network where
  "gen1_net req =
     (if url req = ''http://10.0.0.7/shelly''
      then Answers (Response 200 (Some (JObj [(''gen'', JInt 1)])))
      else if url req = ''http://10.0.0.7/settings''
      then Answers (Response 200
             (Some (JObj [(''auth'', JBool True), (''coiot'', JObj [(''peer'', JStr [])])])))
      else if url req = ''http://10.0.0.7/settings/login''
      then Answers (Response 200 None)
      else Fails ClientError)"

definition gen1_unicast_net :: network where
  "gen1_unicast_net req =
     (if url req = ''http://10.0.0.7/settings''
      then Answers (Response 200
             (Some (JObj [(''coiot'', JObj [(''peer'', JStr ''10.0.0.2:5683'')])])))
      else Answers (Response 404 None))"

definition gen3_net :: network where
  "gen3_net req =
     (if url req = ''http://10.0.0.7/shelly''
      then Answers (Response 200 (Some (JObj [(''gen'', JInt 3), (''auth_en'', JBool False)])))
      else if url req = ''http://10.0.0.7/rpc/Sys.GetConfig''
      then Answers (Response 200
             (Some (JObj [(''ws'', JObj [(''server'', JStr ''wss://example/ws'')])])))
      else if url req = ''http://10.0.0.7/rpc/Sys.SetAuth''
      then Answers (Response 403 None)
      else Fails ClientError)"

definition gen3_plain_net :: network where
  "gen3_plain_net req =
     (if url req = ''http://10.0.0.7/shelly''
      then Answers (Response 200 (Some (JObj [(''gen'', JInt 3)])))
      else Answers (Response 200 (Some (JObj []))))"

definition gen3_silent_net :: network where
  "gen3_silent_net req =
     (if url req = ''http://10.0.0.7/shelly''
      then Answers (Response 200 (Some (JObj [(''gen'', JInt 3)])))
      else Fails TimeoutError)"

definition gen1_locked_net :: network where
  "gen1_locked_net req =
     (if url req = ''http://10.0.0.7/shelly''
      then Answers (Response 200 (Some (JObj [(''gen'', JInt 1)])))
      else Answers (Response 401 None))"

definition gen3_locked_net :: network where
  "gen3_locked_net req =
     (if url req = ''http://10.0.0.7/shelly''
      then Answers (Response 200 (Some (JObj [(''gen'', JInt 3)])))
      else Answers (Response 401 None))"

definition unreachable_net :: network where
  "unreachable_net req = Fails TimeoutError"

definition unauthorized_net :: network where
  "unauthorized_net req = Answers (Response 401 None)"


definition string_gen_net :: network where
  "string_gen_net req =
     (if url req = ''http://10.0.0.7/shelly''
      then Answers (Response 200 (Some (JObj [(''gen'', JStr ''2'')])))
      else Answers (Response 200 (Some (JObj []))))"



section \<open>Shared facts\<close>

lemmas prog_defs = and_then_def try_except_def lift_def returns_def modify_def logger_def
  session_request_def async_write_ha_state_def

lemmas req_defs = probe_request_def check_auth_request_def rpc_set_auth_request_def
  gen1_login_request_def settings_request_def get_config_request_def shelly_url_def
  reader_auth_def writer_auth_def new_basic_auth_def dict_get_def resp_json_def
  action_word_def verb_word_def

lemmas scenario_defs = plug_def plug_switch_def plug_switch_reader_def plug_switch_fed_def
  plug_switch_empty_feed_def colon_plug_def colon_switch_def feed_both_def feed_empty_def
  init_switch_def init_sensor_def

text \<open>The probe sends exactly one request and always returns a value.\<close>

lemma probe_gen_total:
  "\<exists>g. probe_gen net h s = (Returns g, s\<lparr>requests := requests s @ [probe_request h]\<rparr>)"
  by (simp add: probe_gen_def prog_defs resp_json_def Let_def
      split: net_result.splits result.splits option.splits)

lemma probe_gen_run:
  assumes "fst (probe_gen net h s) = Returns g"
  shows "probe_gen net h s = (Returns g, s\<lparr>requests := requests s @ [probe_request h]\<rparr>)"
  using assms probe_gen_total [of net h s] by auto

lemma probe_gen_field:
  assumes "net (probe_request h) = Answers (Response 200 (Some (JObj kvs)))"
      and "map_of kvs ''gen'' = Some g"
  shows "probe_gen net h s = (Returns g, s\<lparr>requests := requests s @ [probe_request h]\<rparr>)"
  using assms by (simp add: probe_gen_def prog_defs resp_json_def Let_def)




lemma set_auth_call_answered:
  assumes pw: "dict_get (credentials self) ''password'' [] \<noteq> []"
      and probe: "fst (probe_gen net (host self) s) = Returns g"
      and cls: "py_ge_int g 2 = Returns rpc"
      and cred: "writer_auth (dict_get (credentials self) ''username'' ''admin'')
                   (dict_get (credentials self) ''password'' []) enable = Returns a"
      and ans: "net (if rpc
                     then rpc_set_auth_request (host self)
                            (dict_get (credentials self) ''username'' ''admin'')
                            (dict_get (credentials self) ''password'' []) enable a
                     else gen1_login_request (host self)
                            (dict_get (credentials self) ''username'' ''admin'')
                            (dict_get (credentials self) ''password'' []) enable a)
                = Answers resp"
  shows "set_auth net self enable s =
           (Returns (),
            (if status resp = 200
             then s\<lparr>requests := requests s @
                      [probe_request (host self),
                       if rpc
                       then rpc_set_auth_request (host self)
                              (dict_get (credentials self) ''username'' ''admin'')
                              (dict_get (credentials self) ''password'' []) enable a
                       else gen1_login_request (host self)
                              (dict_get (credentials self) ''username'' ''admin'')
                              (dict_get (credentials self) ''password'' []) enable a],
                    logged := logged s @
                      [if rpc
                       then LogRecord Info AuthChangedGenN
                              [ArgText (action_word enable), Arg g,
                               ArgText (device_name self), ArgText (host self)]
                       else LogRecord Info AuthChangedGen1
                              [ArgText (action_word enable),
                               ArgText (device_name self), ArgText (host self)]],
                    attr_is_on := JBool enable,
                    ha_state_writes := Suc (ha_state_writes s)\<rparr>
             else s\<lparr>requests := requests s @
                      [probe_request (host self),
                       if rpc
                       then rpc_set_auth_request (host self)
                              (dict_get (credentials self) ''username'' ''admin'')
                              (dict_get (credentials self) ''password'' []) enable a
                       else gen1_login_request (host self)
                              (dict_get (credentials self) ''username'' ''admin'')
                              (dict_get (credentials self) ''password'' []) enable a],
                    logged := logged s @
                      [if rpc
                       then LogRecord Error FailedGenN
                              [ArgText (verb_word enable), Arg g,
                               ArgText (device_name self), Arg (JInt (status resp))]
                       else LogRecord Error FailedGen1
                              [ArgText (verb_word enable),
                               ArgText (device_name self), Arg (JInt (status resp))]]\<rparr>))"
  using pw cls cred ans
  by (cases rpc; cases "status resp = 200")
     (simp_all add: set_auth_def probe_gen_run [OF probe] prog_defs Let_def)

section \<open>Writing: the password precondition\<close>

text \<open>
  C3. With an empty writer password (the key missing, or the empty string) \<open>_set_auth\<close>
  returns at once, for either value of \<open>enable\<close>: the only effect is one error record.
  No request is sent, \<open>_attr_is_on\<close> keeps its value, the state is not written.
\<close>

theorem set_auth_empty_password:
  assumes "dict_get (credentials self) ''password'' [] = []"
  shows "set_auth net self enable s =
           (Returns (), s\<lparr>logged := logged s @
              [LogRecord Error NoPasswordConfigured [ArgText (device_name self)]]\<rparr>)"
  using assms by (simp add: set_auth_def prog_defs Let_def)

theorem set_auth_empty_password_witness:
  "dict_get (credentials (plug_switch\<lparr>credentials := [''username'' \<mapsto> ''admin'']\<rparr>))
     ''password'' [] = [] \<and>
   set_auth gen3_net (plug_switch\<lparr>credentials := [''username'' \<mapsto> ''admin'']\<rparr>) True
     init_switch =
     (Returns (),
      \<lparr>logged = [LogRecord Error NoPasswordConfigured [ArgText ''plug'']],
       requests = [], ha_state_writes = 0, attr_is_on = JNull\<rparr>)"
proof -
  have h: "dict_get (credentials (plug_switch\<lparr>credentials := [''username'' \<mapsto> ''admin'']\<rparr>))
     ''password'' [] = []"
    by (simp add: dict_get_def)
  from set_auth_empty_password [OF h, of gen3_net True init_switch] h
  show ?thesis by (simp add: plug_switch_def init_switch_def)
qed

section \<open>Writing: the wire shape of the RPC dialect\<close>

text \<open>
  A Gen3 device and a writer user name with a colon, to disable: the library refuses to
  build the credentials, the handler of \<open>_set_auth\<close> logs the error, and after the probe
  nothing is posted.
\<close>

theorem set_auth_rpc_colon_counterexample:
  "dict_get (credentials colon_switch) ''username'' ''admin'' = ''ad:min'' \<and>
   gen3_net (probe_request ''10.0.0.7'') =
     Answers (Response 200 (Some (JObj [(''gen'', JInt 3), (''auth_en'', JBool False)]))) \<and>
   set_auth gen3_net colon_switch False init_switch =
     (Returns (),
      \<lparr>logged = [LogRecord Error ErrorSettingAuth
                   [ArgText ''plug'', ArgText ''10.0.0.7'', ArgExn ValueError]],
       requests = [\<lparr>meth = GET, url = ''http://10.0.0.7/shelly'', params = None,
                    json_payload = None, auth = None, timeout = 3\<rparr>],
       ha_state_writes = 0, attr_is_on = JNull\<rparr>)"
  by (simp add: set_auth_def probe_gen_def prog_defs req_defs scenario_defs gen3_net_def
        Let_def)

text \<open>
  C6, as the code has it. On a Gen2/3 device (the probe is answered with status 200 and
  a \<open>gen\<close> field that is at least 2) and with a password configured, \<open>_set_auth\<close> sends the
  probe and then one POST to \<open>/rpc/Sys.SetAuth\<close>: to enable, the JSON body carries the
  writer's user and password and the request has no basic-auth; to disable, with a user
  name free of colons, the body is \<open>{"user": null}\<close> and the request carries basic-auth
  made of the writer's credentials. To disable with a colon in the user name, only the
  probe is sent, an error is logged and \<open>_attr_is_on\<close> keeps its value.
\<close>

theorem set_auth_rpc_wire_shape:
  assumes pw: "dict_get (credentials self) ''password'' [] \<noteq> []"
      and probe: "net (probe_request (host self)) = Answers (Response 200 (Some (JObj kvs)))"
      and field: "map_of kvs ''gen'' = Some g"
      and ge: "py_ge_int g 2 = Returns True"
  shows "(enable \<or> CHR '':'' \<notin> set (dict_get (credentials self) ''username'' ''admin'') \<longrightarrow>
          requests (snd (set_auth net self enable s)) =
           requests s @
           [\<lparr>meth = GET, url = ''http://'' @ host self @ ''/shelly'', params = None,
             json_payload = None, auth = None, timeout = 3\<rparr>,
            \<lparr>meth = POST, url = ''http://'' @ host self @ ''/rpc/Sys.SetAuth'', params = None,
             json_payload =
               Some (if enable
                     then JObj [(''user'', JStr (dict_get (credentials self) ''username'' ''admin'')),
                                (''pass'', JStr (dict_get (credentials self) ''password'' []))]
                     else JObj [(''user'', JNull)]),
             auth =
               (if enable then None
                else Some (BasicAuth (dict_get (credentials self) ''username'' ''admin'')
                                     (dict_get (credentials self) ''password'' []))),
             timeout = 10\<rparr>]) \<and>
         (\<not> enable \<and> CHR '':'' \<in> set (dict_get (credentials self) ''username'' ''admin'') \<longrightarrow>
          requests (snd (set_auth net self enable s)) =
           requests s @
           [\<lparr>meth = GET, url = ''http://'' @ host self @ ''/shelly'', params = None,
             json_payload = None, auth = None, timeout = 3\<rparr>] \<and>
          logged (snd (set_auth net self enable s)) =
           logged s @ [LogRecord Error ErrorSettingAuth
                         [ArgText (device_name self), ArgText (host self), ArgExn ValueError]] \<and>
          attr_is_on (snd (set_auth net self enable s)) = attr_is_on s)"
proof -
  have g: "probe_gen net (host self) s =
      (Returns g, s\<lparr>requests := requests s @ [probe_request (host self)]\<rparr>)"
    using probe field by (rule probe_gen_field)
  show ?thesis
    using pw ge
    by (simp add: set_auth_def g prog_defs Let_def rpc_set_auth_request_def probe_request_def
          shelly_url_def writer_auth_def new_basic_auth_def split: net_result.splits)
qed

theorem set_auth_rpc_wire_shape_witness:
  "dict_get (credentials plug_switch) ''password'' [] \<noteq> [] \<and>
   gen3_net (probe_request (host plug_switch)) =
     Answers (Response 200 (Some (JObj [(''gen'', JInt 3), (''auth_en'', JBool False)]))) \<and>
   map_of [(''gen'', JInt 3), (''auth_en'', JBool False)] ''gen'' = Some (JInt 3) \<and>
   py_ge_int (JInt 3) 2 = Returns True \<and>
   requests (snd (set_auth gen3_net plug_switch True init_switch)) =
     [\<lparr>meth = GET, url = ''http://10.0.0.7/shelly'', params = None,
       json_payload = None, auth = None, timeout = 3\<rparr>,
      \<lparr>meth = POST, url = ''http://10.0.0.7/rpc/Sys.SetAuth'', params = None,
       json_payload = Some (JObj [(''user'', JStr ''admin''), (''pass'', JStr ''s3cret'')]),
       auth = None, timeout = 10\<rparr>] \<and>
   requests (snd (set_auth gen3_net plug_switch False init_switch)) =
     [\<lparr>meth = GET, url = ''http://10.0.0.7/shelly'', params = None,
       json_payload = None, auth = None, timeout = 3\<rparr>,
      \<lparr>meth = POST, url = ''http://10.0.0.7/rpc/Sys.SetAuth'', params = None,
       json_payload = Some (JObj [(''user'', JNull)]),
       auth = Some (BasicAuth ''admin'' ''s3cret''), timeout = 10\<rparr>] \<and>
   dict_get (credentials colon_switch) ''password'' [] \<noteq> [] \<and>
   CHR '':'' \<in> set (dict_get (credentials colon_switch) ''username'' ''admin'') \<and>
   requests (snd (set_auth gen3_net colon_switch False init_switch)) =
     [\<lparr>meth = GET, url = ''http://10.0.0.7/shelly'', params = None,
       json_payload = None, auth = None, timeout = 3\<rparr>]"
proof -
  have pw: "dict_get (credentials plug_switch) ''password'' [] \<noteq> []"
    by (simp add: dict_get_def plug_switch_def)
  have probe: "gen3_net (probe_request (host plug_switch)) =
     Answers (Response 200 (Some (JObj [(''gen'', JInt 3), (''auth_en'', JBool False)])))"
    by (simp add: gen3_net_def probe_request_def shelly_url_def plug_switch_def)
  have cpw: "dict_get (credentials colon_switch) ''password'' [] \<noteq> []"
    by (simp add: dict_get_def colon_switch_def)
  have cprobe: "gen3_net (probe_request (host colon_switch)) =
     Answers (Response 200 (Some (JObj [(''gen'', JInt 3), (''auth_en'', JBool False)])))"
    by (simp add: gen3_net_def probe_request_def shelly_url_def colon_switch_def)
  have colon: "CHR '':'' \<in> set (dict_get (credentials colon_switch) ''username'' ''admin'')"
    by (simp add: dict_get_def colon_switch_def)
  have field: "map_of [(''gen'', JInt 3), (''auth_en'', JBool False)] ''gen'' = Some (JInt 3)"
    by simp
  have ge: "py_ge_int (JInt 3) 2 = Returns True" by simp
  note on = set_auth_rpc_wire_shape [where net = gen3_net and self = plug_switch
      and enable = True and s = init_switch, OF pw probe field ge]
  note off = set_auth_rpc_wire_shape [where net = gen3_net and self = plug_switch
      and enable = False and s = init_switch, OF pw probe field ge]
  note bad = set_auth_rpc_wire_shape [where net = gen3_net and self = colon_switch
      and enable = False and s = init_switch, OF cpw cprobe field ge]
  have r1: "requests (snd (set_auth gen3_net plug_switch True init_switch)) =
     [\<lparr>meth = GET, url = ''http://10.0.0.7/shelly'', params = None,
       json_payload = None, auth = None, timeout = 3\<rparr>,
      \<lparr>meth = POST, url = ''http://10.0.0.7/rpc/Sys.SetAuth'', params = None,
       json_payload = Some (JObj [(''user'', JStr ''admin''), (''pass'', JStr ''s3cret'')]),
       auth = None, timeout = 10\<rparr>]"
    using on by (simp add: plug_switch_def init_switch_def dict_get_def)
  have r2: "requests (snd (set_auth gen3_net plug_switch False init_switch)) =
     [\<lparr>meth = GET, url = ''http://10.0.0.7/shelly'', params = None,
       json_payload = None, auth = None, timeout = 3\<rparr>,
      \<lparr>meth = POST, url = ''http://10.0.0.7/rpc/Sys.SetAuth'', params = None,
       json_payload = Some (JObj [(''user'', JNull)]),
       auth = Some (BasicAuth ''admin'' ''s3cret''), timeout = 10\<rparr>]"
    using off by (simp add: plug_switch_def init_switch_def dict_get_def)
  have r3: "requests (snd (set_auth gen3_net colon_switch False init_switch)) =
     [\<lparr>meth = GET, url = ''http://10.0.0.7/shelly'', params = None,
       json_payload = None, auth = None, timeout = 3\<rparr>]"
    using bad colon by (simp add: colon_switch_def init_switch_def)
  from pw probe field ge r1 r2 cpw colon r3 show ?thesis by blast
qed

section \<open>Writing: the answer to the mutation call\<close>

text \<open>
  C2. Let a password be configured, let the probe classify the device (\<open>rpc\<close> for
  \<open>gen >= 2\<close>), let the credentials of the call be built, and let the device answer the
  mutation call of its dialect. Then \<open>_set_auth\<close> returns normally, having sent the probe
  and that call, and: on status 200 it sets \<open>_attr_is_on\<close> to the requested value, writes
  the state and logs an info record; on any other status it leaves \<open>_attr_is_on\<close> as it
  was, whatever the prior value, writes nothing and logs one error record that carries
  the status code. The Python method has no return value: success is the info record
  with the state update, failure is the error record.
\<close>

theorem set_auth_status:
  assumes pw: "dict_get (credentials self) ''password'' [] \<noteq> []"
      and probe: "fst (probe_gen net (host self) s) = Returns g"
      and cls: "py_ge_int g 2 = Returns rpc"
      and cred: "writer_auth (dict_get (credentials self) ''username'' ''admin'')
                   (dict_get (credentials self) ''password'' []) enable = Returns a"
      and ans: "net (if rpc
                     then rpc_set_auth_request (host self)
                            (dict_get (credentials self) ''username'' ''admin'')
                            (dict_get (credentials self) ''password'' []) enable a
                     else gen1_login_request (host self)
                            (dict_get (credentials self) ''username'' ''admin'')
                            (dict_get (credentials self) ''password'' []) enable a)
                = Answers resp"
  shows "fst (set_auth net self enable s) = Returns () \<and>
         requests (snd (set_auth net self enable s)) =
           requests s @
           [probe_request (host self),
            if rpc
            then rpc_set_auth_request (host self)
                   (dict_get (credentials self) ''username'' ''admin'')
                   (dict_get (credentials self) ''password'' []) enable a
            else gen1_login_request (host self)
                   (dict_get (credentials self) ''username'' ''admin'')
                   (dict_get (credentials self) ''password'' []) enable a] \<and>
         (status resp = 200 \<longrightarrow>
            attr_is_on (snd (set_auth net self enable s)) = JBool enable \<and>
            ha_state_writes (snd (set_auth net self enable s)) = Suc (ha_state_writes s) \<and>
            (\<exists>msg as. logged (snd (set_auth net self enable s)) =
                        logged s @ [LogRecord Info msg as])) \<and>
         (status resp \<noteq> 200 \<longrightarrow>
            attr_is_on (snd (set_auth net self enable s)) = attr_is_on s \<and>
            ha_state_writes (snd (set_auth net self enable s)) = ha_state_writes s \<and>
            (\<exists>msg as. logged (snd (set_auth net self enable s)) =
                        logged s @ [LogRecord Error msg as] \<and>
                      Arg (JInt (status resp)) \<in> set as))"
  unfolding set_auth_call_answered [OF pw probe cls cred ans]
  by (cases rpc) simp_all

text \<open>Two runs used as concrete instances: a refused disable, an accepted enable.\<close>

lemma gen3_disable_run:
  "set_auth gen3_net plug_switch False (init_switch\<lparr>attr_is_on := JBool True\<rparr>) =
     (Returns (),
      \<lparr>logged = [LogRecord Error FailedGenN
                   [ArgText ''disable'', Arg (JInt 3), ArgText ''plug'', Arg (JInt 403)]],
       requests = [probe_request ''10.0.0.7'',
                   rpc_set_auth_request ''10.0.0.7'' ''admin'' ''s3cret'' False
                     (Some (BasicAuth ''admin'' ''s3cret''))],
       ha_state_writes = 0, attr_is_on = JBool True\<rparr>)"
  by (simp add: set_auth_def probe_gen_def prog_defs req_defs scenario_defs gen3_net_def Let_def)

lemma gen1_enable_run:
  "set_auth gen1_net plug_switch True init_switch =
     (Returns (),
      \<lparr>logged = [LogRecord Info AuthChangedGen1
                   [ArgText ''enabled'', ArgText ''plug'', ArgText ''10.0.0.7'']],
       requests = [probe_request ''10.0.0.7'',
                   gen1_login_request ''10.0.0.7'' ''admin'' ''s3cret'' True None],
       ha_state_writes = 1, attr_is_on = JBool True\<rparr>)"
  by (simp add: set_auth_def probe_gen_def prog_defs req_defs scenario_defs gen1_net_def Let_def)

theorem set_auth_status_witness:
  "dict_get (credentials plug_switch) ''password'' [] \<noteq> [] \<and>
   fst (probe_gen gen3_net (host plug_switch) (init_switch\<lparr>attr_is_on := JBool True\<rparr>)) =
     Returns (JInt 3) \<and>
   py_ge_int (JInt 3) 2 = Returns True \<and>
   writer_auth ''admin'' ''s3cret'' False = Returns (Some (BasicAuth ''admin'' ''s3cret'')) \<and>
   gen3_net (rpc_set_auth_request ''10.0.0.7'' ''admin'' ''s3cret'' False
               (Some (BasicAuth ''admin'' ''s3cret''))) =
     Answers (Response 403 None) \<and>
   attr_is_on (snd (set_auth gen3_net plug_switch False (init_switch\<lparr>attr_is_on := JBool True\<rparr>)))
     = JBool True \<and>
   fst (probe_gen gen1_net (host plug_switch) init_switch) = Returns (JInt 1) \<and>
   py_ge_int (JInt 1) 2 = Returns False \<and>
   writer_auth ''admin'' ''s3cret'' True = Returns None \<and>
   gen1_net (gen1_login_request ''10.0.0.7'' ''admin'' ''s3cret'' True None) =
     Answers (Response 200 None) \<and>
   attr_is_on (snd (set_auth gen1_net plug_switch True init_switch)) = JBool True"
proof -
  have pw: "dict_get (credentials plug_switch) ''password'' [] \<noteq> []"
    by (simp add: dict_get_def plug_switch_def)
  have u: "dict_get (credentials plug_switch) ''username'' ''admin'' = ''admin''"
    by (simp add: dict_get_def plug_switch_def)
  have p: "dict_get (credentials plug_switch) ''password'' [] = ''s3cret''"
    by (simp add: dict_get_def plug_switch_def)
  have h: "host plug_switch = ''10.0.0.7''" by (simp add: plug_switch_def)
  have p3: "fst (probe_gen gen3_net (host plug_switch) (init_switch\<lparr>attr_is_on := JBool True\<rparr>)) =
     Returns (JInt 3)"
    by (simp add: probe_gen_def prog_defs req_defs plug_switch_def gen3_net_def)
  have p1: "fst (probe_gen gen1_net (host plug_switch) init_switch) = Returns (JInt 1)"
    by (simp add: probe_gen_def prog_defs req_defs plug_switch_def gen1_net_def)
  have c3: "py_ge_int (JInt 3) 2 = Returns True" by simp
  have c1: "py_ge_int (JInt 1) 2 = Returns False" by simp
  have w3: "writer_auth ''admin'' ''s3cret'' False = Returns (Some (BasicAuth ''admin'' ''s3cret''))"
    by (simp add: writer_auth_def new_basic_auth_def)
  have w1: "writer_auth ''admin'' ''s3cret'' True = Returns None"
    by (simp add: writer_auth_def)
  have a3: "gen3_net (rpc_set_auth_request ''10.0.0.7'' ''admin'' ''s3cret'' False
               (Some (BasicAuth ''admin'' ''s3cret''))) = Answers (Response 403 None)"
    by (simp add: gen3_net_def rpc_set_auth_request_def shelly_url_def)
  have a1: "gen1_net (gen1_login_request ''10.0.0.7'' ''admin'' ''s3cret'' True None) =
     Answers (Response 200 None)"
    by (simp add: gen1_net_def gen1_login_request_def shelly_url_def)
  have off: "attr_is_on (snd (set_auth gen3_net plug_switch False
                (init_switch\<lparr>attr_is_on := JBool True\<rparr>))) = JBool True"
    using set_auth_status [where net = gen3_net and self = plug_switch and enable = False
        and s = "init_switch\<lparr>attr_is_on := JBool True\<rparr>" and g = "JInt 3" and rpc = True
        and a = "Some (BasicAuth ''admin'' ''s3cret'')" and resp = "Response 403 None",
        OF pw p3 c3]
      w3 a3
    by (simp add: u p h)
  have on: "attr_is_on (snd (set_auth gen1_net plug_switch True init_switch)) = JBool True"
    using set_auth_status [where net = gen1_net and self = plug_switch and enable = True
        and s = init_switch and g = "JInt 1" and rpc = False
        and a = None and resp = "Response 200 None",
        OF pw p1 c1]
      w1 a1
    by (simp add: u p h)
  from pw p3 c3 w3 a3 off p1 c1 w1 a1 on show ?thesis by blast
qed

section \<open>Writing: the default user name\<close>

text \<open>
  C10. When the writer credentials have no \<open>username\<close> key, \<open>_set_auth\<close> behaves in
  every respect as if the user name were \<open>admin\<close>: same result, same requests, same log.
  Only the password is checked before the calls, so with a password set the probe is
  sent although the user name is missing.
\<close>

theorem set_auth_default_username:
  assumes "credentials self ''username'' = None"
  shows "set_auth net self enable s =
           set_auth net (self\<lparr>credentials := (credentials self)(''username'' \<mapsto> ''admin'')\<rparr>)
             enable s \<and>
         (dict_get (credentials self) ''password'' [] \<noteq> [] \<longrightarrow>
            (\<exists>rest. requests (snd (set_auth net self enable s)) =
                     requests s @ probe_request (host self) # rest))"
proof -
  obtain g where g: "probe_gen net (host self) s =
      (Returns g, s\<lparr>requests := requests s @ [probe_request (host self)]\<rparr>)"
    using probe_gen_total by blast
  have same: "set_auth net self enable s =
           set_auth net (self\<lparr>credentials := (credentials self)(''username'' \<mapsto> ''admin'')\<rparr>)
             enable s"
    using assms by (simp add: set_auth_def dict_get_def Let_def cong del: if_weak_cong)
  have sent: "dict_get (credentials self) ''password'' [] \<noteq> [] \<longrightarrow>
            (\<exists>rest. requests (snd (set_auth net self enable s)) =
                     requests s @ probe_request (host self) # rest)"
    by (cases "py_ge_int g 2";
        cases "writer_auth (dict_get (credentials self) ''username'' ''admin'')
                 (dict_get (credentials self) ''password'' []) enable")
       (auto simp add: set_auth_def g prog_defs Let_def split: net_result.splits)
  from same sent show ?thesis by blast
qed

theorem set_auth_default_username_witness:
  "credentials plug_switch ''username'' = None \<and>
   dict_get (credentials plug_switch) ''password'' [] \<noteq> [] \<and>
   set_auth gen1_net plug_switch True init_switch =
     set_auth gen1_net
       (plug_switch\<lparr>credentials := [''password'' \<mapsto> ''s3cret'', ''username'' \<mapsto> ''admin'']\<rparr>)
       True init_switch \<and>
   requests (snd (set_auth gen1_net plug_switch True init_switch)) =
     [probe_request ''10.0.0.7'',
      \<lparr>meth = GET, url = ''http://10.0.0.7/settings/login'',
       params = Some [(''enabled'', ''1''), (''username'', ''admin''), (''password'', ''s3cret'')],
       json_payload = None, auth = None, timeout = 10\<rparr>]"
proof -
  have u: "credentials plug_switch ''username'' = None"
    by (simp add: plug_switch_def)
  have pw: "dict_get (credentials plug_switch) ''password'' [] \<noteq> []"
    by (simp add: dict_get_def plug_switch_def)
  have c: "(credentials plug_switch)(''username'' \<mapsto> ''admin'') =
           [''password'' \<mapsto> ''s3cret'', ''username'' \<mapsto> ''admin'']"
    by (simp add: plug_switch_def)
  from set_auth_default_username [OF u, of gen1_net True init_switch]
  have "set_auth gen1_net plug_switch True init_switch =
     set_auth gen1_net
       (plug_switch\<lparr>credentials := (credentials plug_switch)(''username'' \<mapsto> ''admin'')\<rparr>)
       True init_switch"
    by (rule conjunct1)
  then have eq: "set_auth gen1_net plug_switch True init_switch =
     set_auth gen1_net
       (plug_switch\<lparr>credentials := [''password'' \<mapsto> ''s3cret'', ''username'' \<mapsto> ''admin'']\<rparr>)
       True init_switch"
    by (simp only: c)
  have tr: "requests (snd (set_auth gen1_net plug_switch True init_switch)) =
     [probe_request ''10.0.0.7'',
      \<lparr>meth = GET, url = ''http://10.0.0.7/settings/login'',
       params = Some [(''enabled'', ''1''), (''username'', ''admin''), (''password'', ''s3cret'')],
       json_payload = None, auth = None, timeout = 10\<rparr>]"
    by (simp add: gen1_enable_run gen1_login_request_def shelly_url_def)
  from u pw eq tr show ?thesis by blast
qed

section \<open>Reading: the push feed\<close>

text \<open>
  C1. When the device has a push feed (a coordinator whose \<open>data\<close> answers lookups) and
  the feed holds a value other than \<open>None\<close> under \<open>auth_en\<close>, the read adopts that value
  as \<open>_attr_is_on\<close>, falsy or not, and sends no request: at attachment time and on
  every feed update. The legacy key \<open>auth\<close> may hold any value \<open>w\<close>, present or
  \<open>None\<close>: the explicit flag wins.
\<close>

theorem read_from_feed:
  assumes feed: "coordinator self = Some c" "data_attr c = Some (Lookup get)"
      and explicit: "get ''auth_en'' = Returns v" "v \<noteq> JNull"
      and legacy: "get ''auth'' = Returns w"
  shows "fst (switch_added_to_hass net self s) = Returns () \<and>
         attr_is_on (snd (switch_added_to_hass net self s)) = v \<and>
         requests (snd (switch_added_to_hass net self s)) = requests s \<and>
         fst (handle_coordinator_update self s) = Returns () \<and>
         attr_is_on (snd (handle_coordinator_update self s)) = v \<and>
         requests (snd (handle_coordinator_update self s)) = requests s"
  using assms
  by (simp add: switch_added_to_hass_def handle_coordinator_update_def
        update_from_coordinator_def prog_defs)

theorem read_from_feed_witness:
  "coordinator plug_switch_fed = Some (Coordinator (Some (Lookup feed_both))) \<and>
   data_attr (Coordinator (Some (Lookup feed_both))) = Some (Lookup feed_both) \<and>
   feed_both ''auth_en'' = Returns (JBool False) \<and> JBool False \<noteq> JNull \<and>
   feed_both ''auth'' = Returns (JBool True) \<and>
   attr_is_on (snd (switch_added_to_hass unreachable_net plug_switch_fed init_switch)) =
     JBool False \<and>
   requests (snd (switch_added_to_hass unreachable_net plug_switch_fed init_switch)) = []"
proof -
  have c: "coordinator plug_switch_fed = Some (Coordinator (Some (Lookup feed_both)))"
    by (simp add: plug_switch_fed_def)
  have d: "data_attr (Coordinator (Some (Lookup feed_both))) = Some (Lookup feed_both)"
    by simp
  have e: "feed_both ''auth_en'' = Returns (JBool False)" by (simp add: feed_both_def)
  have n: "JBool False \<noteq> JNull" by simp
  have l: "feed_both ''auth'' = Returns (JBool True)" by (simp add: feed_both_def)
  from read_from_feed [OF c d e n l, of unreachable_net init_switch] c d e l
  show ?thesis by (simp add: init_switch_def)
qed

section \<open>Reading: the fallback poll\<close>

text \<open>
  Without a push feed the read is \<open>_check_auth_status\<close> followed by the state write.
  Reading the feed sends nothing. The poll returns normally in every case; it sends one
  request once the reader credentials are built, and none when the library refuses them.
\<close>

lemma switch_added_to_hass_fallback:
  assumes "case coordinator self of None \<Rightarrow> True | Some c \<Rightarrow> data_attr c = None"
  shows "switch_added_to_hass net self s =
           and_then (check_auth_status net self) (\<lambda>_. async_write_ha_state) s"
  using assms by (simp add: switch_added_to_hass_def and_then_def split: option.splits)

lemma update_from_coordinator_sends_nothing:
  "requests (snd (update_from_coordinator self s)) = requests s"
proof (cases "coordinator self")
  case None
  then show ?thesis by (simp add: update_from_coordinator_def prog_defs)
next
  case (Some c)
  show ?thesis
  proof (cases "data_attr c")
    case None
    with Some show ?thesis by (simp add: update_from_coordinator_def prog_defs)
  next
    case outer: (Some d)
    show ?thesis
    proof (cases d)
      case NoLookup
      with Some outer show ?thesis by (simp add: update_from_coordinator_def prog_defs)
    next
      case (Lookup get)
      with Some outer show ?thesis
        by (cases "get ''auth_en''"; cases "get ''auth''")
           (simp_all add: update_from_coordinator_def prog_defs)
    qed
  qed
qed

lemma reader_auth_cases:
  "reader_auth username pw =
     (if pw \<noteq> [] \<and> username \<noteq> []
      then (if CHR '':'' \<in> set username then Raises ValueError
            else Returns (Some (BasicAuth username pw)))
      else Returns None)"
  by (simp add: reader_auth_def new_basic_auth_def)

lemma check_auth_status_cred_raises:
  assumes "reader_auth (dict_get (entry self) ''username'' [])
             (dict_get (entry self) ''password'' []) = Raises e"
  shows "check_auth_status net self s =
           (Returns (),
            s\<lparr>logged := logged s @ [LogRecord Debug CouldNotCheckAuth
                                      [ArgText (device_name self), ArgExn e]]\<rparr>)"
  using assms by (simp add: check_auth_status_def prog_defs)

lemma check_auth_status_effect:
  assumes cred: "reader_auth (dict_get (entry self) ''username'' [])
                   (dict_get (entry self) ''password'' []) = Returns a"
  shows "fst (check_auth_status net self s) = Returns () \<and>
         requests (snd (check_auth_status net self s)) =
           requests s @ [check_auth_request (host self) a]"
proof (cases "net (check_auth_request (host self) a)")
  case (Fails e)
  with cred show ?thesis by (simp add: check_auth_status_def prog_defs Let_def)
next
  case (Answers resp)
  show ?thesis
  proof (cases "body resp")
    case None
    with cred Answers show ?thesis
      by (simp add: check_auth_status_def prog_defs resp_json_def Let_def)
  next
    case (Some data)
    with cred Answers show ?thesis
      by (cases data) (simp_all add: check_auth_status_def prog_defs resp_json_def Let_def)
  qed
qed

section \<open>Reading: HTTP 401\<close>

text \<open>
  C7. In the read fallback (no push feed), when the poll is sent (the reader credentials
  \<open>a\<close> are built) and the device answers it with HTTP 401, the read ends normally with
  \<open>_attr_is_on = True\<close>: the status is a signal that authentication is on, not an
  error.
\<close>

theorem read_401_enabled:
  assumes no_feed: "case coordinator self of None \<Rightarrow> True | Some c \<Rightarrow> data_attr c = None"
      and cred: "reader_auth (dict_get (entry self) ''username'' [])
                   (dict_get (entry self) ''password'' []) = Returns a"
      and answer: "net (check_auth_request (host self) a) = Answers resp"
      and unauthorized: "status resp = 401"
  shows "fst (check_auth_status net self s) = Returns () \<and>
         attr_is_on (snd (check_auth_status net self s)) = JBool True \<and>
         fst (switch_added_to_hass net self s) = Returns () \<and>
         attr_is_on (snd (switch_added_to_hass net self s)) = JBool True"
proof -
  have poll: "check_auth_status net self s =
      (Returns (),
       s\<lparr>requests := requests s @ [check_auth_request (host self) a],
         attr_is_on := JBool True,
         logged := logged s @ [LogRecord Debug InitialState401 [ArgText (device_name self)]]\<rparr>)"
    using cred answer unauthorized by (simp add: check_auth_status_def prog_defs Let_def)
  show ?thesis
    unfolding switch_added_to_hass_fallback [OF no_feed]
    by (simp add: poll and_then_def async_write_ha_state_def modify_def)
qed

theorem read_401_enabled_witness:
  "(case coordinator plug_switch of None \<Rightarrow> True | Some c \<Rightarrow> data_attr c = None) \<and>
   reader_auth (dict_get (entry plug_switch) ''username'' [])
     (dict_get (entry plug_switch) ''password'' []) = Returns None \<and>
   unauthorized_net (check_auth_request (host plug_switch) None) =
     Answers (Response 401 None) \<and>
   status (Response 401 None) = 401 \<and>
   attr_is_on (snd (switch_added_to_hass unauthorized_net plug_switch init_switch)) = JBool True \<and>
   reader_auth (dict_get (entry plug_switch_reader) ''username'' [])
     (dict_get (entry plug_switch_reader) ''password'' []) =
     Returns (Some (BasicAuth ''admin'' ''pw'')) \<and>
   attr_is_on (snd (switch_added_to_hass unauthorized_net plug_switch_reader init_switch)) =
     JBool True"
proof -
  have f: "case coordinator plug_switch of None \<Rightarrow> True | Some c \<Rightarrow> data_attr c = None"
    by (simp add: plug_switch_def)
  have c: "reader_auth (dict_get (entry plug_switch) ''username'' [])
     (dict_get (entry plug_switch) ''password'' []) = Returns None"
    by (simp add: reader_auth_def dict_get_def plug_switch_def)
  have a: "unauthorized_net (check_auth_request (host plug_switch) None) =
     Answers (Response 401 None)"
    by (simp add: unauthorized_net_def)
  have fr: "case coordinator plug_switch_reader of None \<Rightarrow> True | Some c \<Rightarrow> data_attr c = None"
    by (simp add: plug_switch_reader_def plug_switch_def)
  have cr: "reader_auth (dict_get (entry plug_switch_reader) ''username'' [])
     (dict_get (entry plug_switch_reader) ''password'' []) =
     Returns (Some (BasicAuth ''admin'' ''pw''))"
    by (simp add: reader_auth_def new_basic_auth_def dict_get_def plug_switch_reader_def)
  have ar: "unauthorized_net (check_auth_request (host plug_switch_reader)
              (Some (BasicAuth ''admin'' ''pw''))) = Answers (Response 401 None)"
    by (simp add: unauthorized_net_def)
  have u: "status (Response 401 None) = 401" by simp
  have r1: "attr_is_on (snd (switch_added_to_hass unauthorized_net plug_switch init_switch)) =
     JBool True"
    using read_401_enabled [where net = unauthorized_net and self = plug_switch
        and s = init_switch and a = None and resp = "Response 401 None", OF f c a u]
    by simp
  have r2: "attr_is_on (snd (switch_added_to_hass unauthorized_net plug_switch_reader
                init_switch)) = JBool True"
    using read_401_enabled [where net = unauthorized_net and self = plug_switch_reader
        and s = init_switch and a = "Some (BasicAuth ''admin'' ''pw'')"
        and resp = "Response 401 None", OF fr cr ar u]
    by simp
  from f c a u r1 cr r2 show ?thesis by blast
qed

section \<open>Reading: what the fallback polls\<close>

text \<open>
  Scenario A of the specification on the code: the self-description answers
  \<open>{"gen": 1}\<close> and the settings endpoint would answer \<open>{"auth": true, ...}\<close>. The read
  sends one request, to \<open>/shelly\<close>, never asks \<open>/settings\<close>, and the state stays
  \<open>None\<close>. With a feed that holds neither key the read sends nothing at all.
\<close>

theorem read_fallback_polls_settings_counterexample:
  "requests (snd (switch_added_to_hass gen1_net plug_switch init_switch)) =
     [\<lparr>meth = GET, url = ''http://10.0.0.7/shelly'', params = None, json_payload = None,
       auth = None, timeout = 3\<rparr>] \<and>
   attr_is_on (snd (switch_added_to_hass gen1_net plug_switch init_switch)) = JNull \<and>
   gen1_net \<lparr>meth = GET, url = ''http://10.0.0.7/settings'', params = None,
             json_payload = None, auth = None, timeout = 5\<rparr> =
     Answers (Response 200
       (Some (JObj [(''auth'', JBool True), (''coiot'', JObj [(''peer'', JStr [])])]))) \<and>
   requests (snd (switch_added_to_hass gen1_net plug_switch_empty_feed init_switch)) = [] \<and>
   attr_is_on (snd (switch_added_to_hass gen1_net plug_switch_empty_feed init_switch)) = JNull"
  by (simp add: switch_added_to_hass_def check_auth_status_def update_from_coordinator_def
        prog_defs req_defs scenario_defs gen1_net_def Let_def)

text \<open>
  C5, as the code has it. Without a push feed (no coordinator, or one without the
  attribute \<open>data\<close>) the read builds the reader credentials, basic-auth exactly when the
  reader's user name and password are both non-empty. When they are built (always,
  unless both are set and the user name holds a colon) the read sends exactly one
  request: GET \<open>http://<host>/shelly\<close> with timeout 3 and these credentials; on status
  200 with a JSON object it adopts, from that same response, the value under \<open>auth_en\<close>
  when \<open>gen\<close> is 2 or 3 and under \<open>auth\<close> otherwise, when that value is not \<open>None\<close>.
  When both are set and the user name holds a colon, the library refuses the
  credentials: the read sends no request, returns normally and leaves \<open>_attr_is_on\<close>
  as it was. With a feed present the read sends no request, whatever the feed holds.
  The settings endpoint is never asked.
\<close>

theorem read_fallback_poll:
  "((case coordinator self of None \<Rightarrow> True | Some c \<Rightarrow> data_attr c = None) \<longrightarrow>
      (dict_get (entry self) ''password'' [] = [] \<or>
       CHR '':'' \<notin> set (dict_get (entry self) ''username'' [])) \<longrightarrow>
      requests (snd (switch_added_to_hass net self s)) =
        requests s @
        [\<lparr>meth = GET, url = ''http://'' @ host self @ ''/shelly'', params = None,
          json_payload = None,
          auth = (if dict_get (entry self) ''password'' [] \<noteq> [] \<and>
                     dict_get (entry self) ''username'' [] \<noteq> []
                  then Some (BasicAuth (dict_get (entry self) ''username'' [])
                                       (dict_get (entry self) ''password'' []))
                  else None),
          timeout = 3\<rparr>]) \<and>
   ((case coordinator self of None \<Rightarrow> True | Some c \<Rightarrow> data_attr c = None) \<longrightarrow>
      dict_get (entry self) ''password'' [] \<noteq> [] \<longrightarrow>
      CHR '':'' \<in> set (dict_get (entry self) ''username'' []) \<longrightarrow>
      fst (switch_added_to_hass net self s) = Returns () \<and>
      requests (snd (switch_added_to_hass net self s)) = requests s \<and>
      attr_is_on (snd (switch_added_to_hass net self s)) = attr_is_on s) \<and>
   ((case coordinator self of None \<Rightarrow> True | Some c \<Rightarrow> data_attr c = None) \<longrightarrow>
      reader_auth (dict_get (entry self) ''username'' [])
        (dict_get (entry self) ''password'' []) = Returns a \<longrightarrow>
      net (check_auth_request (host self) a) = Answers (Response 200 (Some (JObj kvs))) \<longrightarrow>
      py_get (JObj kvs) ''gen'' JNull = Returns g \<longrightarrow>
      py_get (JObj kvs) (if py_eq_int g 2 \<or> py_eq_int g 3 then ''auth_en'' else ''auth'') JNull
        = Returns v \<longrightarrow>
      v \<noteq> JNull \<longrightarrow>
      attr_is_on (snd (switch_added_to_hass net self s)) = v) \<and>
   (coordinator self = Some c \<longrightarrow> data_attr c = Some d \<longrightarrow>
      requests (snd (switch_added_to_hass net self s)) = requests s)"
proof -
  let ?u = "dict_get (entry self) ''username'' []"
  let ?p = "dict_get (entry self) ''password'' []"
  let ?a = "if ?p \<noteq> [] \<and> ?u \<noteq> [] then Some (BasicAuth ?u ?p) else None"
  have sent: "requests (snd (switch_added_to_hass net self s)) =
        requests s @
        [\<lparr>meth = GET, url = ''http://'' @ host self @ ''/shelly'', params = None,
          json_payload = None, auth = ?a, timeout = 3\<rparr>]"
    if no_feed: "case coordinator self of None \<Rightarrow> True | Some c \<Rightarrow> data_attr c = None"
      and ok: "?p = [] \<or> CHR '':'' \<notin> set ?u"
  proof -
    have cred: "reader_auth ?u ?p = Returns ?a"
      using ok by (auto simp add: reader_auth_cases)
    obtain s1 where run: "check_auth_status net self s = (Returns (), s1)"
      and tr: "requests s1 = requests s @ [check_auth_request (host self) ?a]"
      using check_auth_status_effect [OF cred, of net s] by (metis prod.collapse)
    show ?thesis
      unfolding switch_added_to_hass_fallback [OF no_feed]
      by (simp add: and_then_def run async_write_ha_state_def modify_def tr
            check_auth_request_def shelly_url_def)
  qed
  have refused: "fst (switch_added_to_hass net self s) = Returns () \<and>
      requests (snd (switch_added_to_hass net self s)) = requests s \<and>
      attr_is_on (snd (switch_added_to_hass net self s)) = attr_is_on s"
    if no_feed: "case coordinator self of None \<Rightarrow> True | Some c \<Rightarrow> data_attr c = None"
      and pw: "?p \<noteq> []" and colon: "CHR '':'' \<in> set ?u"
  proof -
    have cred: "reader_auth ?u ?p = Raises ValueError"
      using pw colon by (auto simp add: reader_auth_cases)
    show ?thesis
      unfolding switch_added_to_hass_fallback [OF no_feed]
      by (simp add: and_then_def check_auth_status_cred_raises [OF cred]
            async_write_ha_state_def modify_def)
  qed
  have adopted: "attr_is_on (snd (switch_added_to_hass net self s)) = v"
    if no_feed: "case coordinator self of None \<Rightarrow> True | Some c \<Rightarrow> data_attr c = None"
      and cred: "reader_auth ?u ?p = Returns a"
      and answer: "net (check_auth_request (host self) a) =
                     Answers (Response 200 (Some (JObj kvs)))"
      and gen: "py_get (JObj kvs) ''gen'' JNull = Returns g"
      and flag: "py_get (JObj kvs)
                   (if py_eq_int g 2 \<or> py_eq_int g 3 then ''auth_en'' else ''auth'') JNull
                 = Returns v"
      and present: "v \<noteq> JNull"
    unfolding switch_added_to_hass_fallback [OF no_feed]
    using cred answer gen flag present
    by (cases "py_eq_int g 2 \<or> py_eq_int g 3")
       (simp_all add: check_auth_status_def prog_defs resp_json_def Let_def)
  have fed: "requests (snd (switch_added_to_hass net self s)) = requests s"
    if "coordinator self = Some c" and "data_attr c = Some d"
  proof -
    from that have "switch_added_to_hass net self s =
        and_then (and_then (update_from_coordinator self) (\<lambda>_.
                    logger Debug SubscribedToCoordinator [ArgText (device_name self)]))
          (\<lambda>_. async_write_ha_state) s"
      by (simp add: switch_added_to_hass_def and_then_def)
    moreover obtain r1 s1 where "update_from_coordinator self s = (r1, s1)"
        and "requests s1 = requests s"
      using update_from_coordinator_sends_nothing [of self s] by (metis prod.collapse)
    ultimately show ?thesis
      by (cases r1) (simp_all add: prog_defs)
  qed
  from sent refused adopted fed show ?thesis by blast
qed

theorem read_fallback_poll_witness:
  "(case coordinator plug_switch_reader of None \<Rightarrow> True | Some c \<Rightarrow> data_attr c = None) \<and>
   CHR '':'' \<notin> set (dict_get (entry plug_switch_reader) ''username'' []) \<and>
   requests (snd (switch_added_to_hass gen3_net plug_switch_reader init_switch)) =
     [\<lparr>meth = GET, url = ''http://10.0.0.7/shelly'', params = None, json_payload = None,
       auth = Some (BasicAuth ''admin'' ''pw''), timeout = 3\<rparr>] \<and>
   reader_auth (dict_get (entry plug_switch_reader) ''username'' [])
     (dict_get (entry plug_switch_reader) ''password'' []) =
     Returns (Some (BasicAuth ''admin'' ''pw'')) \<and>
   gen3_net (check_auth_request (host plug_switch_reader) (Some (BasicAuth ''admin'' ''pw''))) =
     Answers (Response 200 (Some (JObj [(''gen'', JInt 3), (''auth_en'', JBool False)]))) \<and>
   attr_is_on (snd (switch_added_to_hass gen3_net plug_switch_reader init_switch)) = JBool False \<and>
   (case coordinator colon_switch of None \<Rightarrow> True | Some c \<Rightarrow> data_attr c = None) \<and>
   dict_get (entry colon_switch) ''password'' [] \<noteq> [] \<and>
   CHR '':'' \<in> set (dict_get (entry colon_switch) ''username'' []) \<and>
   requests (snd (switch_added_to_hass gen3_net colon_switch init_switch)) = [] \<and>
   attr_is_on (snd (switch_added_to_hass gen3_net colon_switch init_switch)) = JNull \<and>
   coordinator plug_switch_empty_feed = Some (Coordinator (Some (Lookup feed_empty))) \<and>
   requests (snd (switch_added_to_hass gen3_net plug_switch_empty_feed init_switch)) = []"
proof -
  have f: "case coordinator plug_switch_reader of None \<Rightarrow> True | Some c \<Rightarrow> data_attr c = None"
    by (simp add: plug_switch_reader_def plug_switch_def)
  have nc: "CHR '':'' \<notin> set (dict_get (entry plug_switch_reader) ''username'' [])"
    by (simp add: plug_switch_reader_def dict_get_def)
  have cr: "reader_auth (dict_get (entry plug_switch_reader) ''username'' [])
     (dict_get (entry plug_switch_reader) ''password'' []) =
     Returns (Some (BasicAuth ''admin'' ''pw''))"
    by (simp add: reader_auth_def new_basic_auth_def dict_get_def plug_switch_reader_def)
  have a: "gen3_net (check_auth_request (host plug_switch_reader)
                       (Some (BasicAuth ''admin'' ''pw''))) =
     Answers (Response 200 (Some (JObj [(''gen'', JInt 3), (''auth_en'', JBool False)])))"
    by (simp add: gen3_net_def check_auth_request_def shelly_url_def plug_switch_reader_def
          plug_switch_def)
  have fc: "case coordinator colon_switch of None \<Rightarrow> True | Some c \<Rightarrow> data_attr c = None"
    by (simp add: colon_switch_def)
  have pc: "dict_get (entry colon_switch) ''password'' [] \<noteq> []"
    by (simp add: colon_switch_def dict_get_def)
  have cc: "CHR '':'' \<in> set (dict_get (entry colon_switch) ''username'' [])"
    by (simp add: colon_switch_def dict_get_def)
  have c: "coordinator plug_switch_empty_feed = Some (Coordinator (Some (Lookup feed_empty)))"
    by (simp add: plug_switch_empty_feed_def)
  note r = read_fallback_poll [where net = gen3_net and self = plug_switch_reader
      and s = init_switch and kvs = "[(''gen'', JInt 3), (''auth_en'', JBool False)]"
      and g = "JInt 3" and v = "JBool False" and a = "Some (BasicAuth ''admin'' ''pw'')"]
  note b = read_fallback_poll [where net = gen3_net and self = colon_switch
      and s = init_switch]
  note e = read_fallback_poll [where net = gen3_net and self = plug_switch_empty_feed
      and s = init_switch and c = "Coordinator (Some (Lookup feed_empty))"
      and d = "Lookup feed_empty"]
  have t: "requests (snd (switch_added_to_hass gen3_net plug_switch_reader init_switch)) =
     [\<lparr>meth = GET, url = ''http://10.0.0.7/shelly'', params = None, json_payload = None,
       auth = Some (BasicAuth ''admin'' ''pw''), timeout = 3\<rparr>]"
    using r f nc by (simp add: plug_switch_reader_def plug_switch_def init_switch_def dict_get_def)
  have v: "attr_is_on (snd (switch_added_to_hass gen3_net plug_switch_reader init_switch)) =
     JBool False"
    using r f cr a by simp
  have q: "requests (snd (switch_added_to_hass gen3_net colon_switch init_switch)) = [] \<and>
     attr_is_on (snd (switch_added_to_hass gen3_net colon_switch init_switch)) = JNull"
    using b fc pc cc by (simp add: init_switch_def)
  have n: "requests (snd (switch_added_to_hass gen3_net plug_switch_empty_feed init_switch)) = []"
    using e c by (simp add: init_switch_def)
  from f nc t cr a v fc pc cc q c n show ?thesis by blast
qed

section \<open>Describing the connectivity\<close>

text \<open>
  After the probe, \<open>_load_connectivity_config\<close> runs one of the two loaders inside its
  \<open>try\<close>; the lemmas below give what each loader leaves, case by case: the credentials
  refused, the call raising, and the call answered.
\<close>

lemma load_connectivity_config_dispatch:
  assumes detect: "fst (detect_generation net dev t) = Returns g"
      and cls: "py_ge_int g 2 = Returns rpc"
  shows "load_connectivity_config str_of net dev t =
           try_except
             (if rpc
              then load_gen2_websocket str_of net dev
                     (dict_get (entry dev) ''username'' []) (dict_get (entry dev) ''password'' [])
              else load_gen1_coiot str_of net dev
                     (dict_get (entry dev) ''username'' []) (dict_get (entry dev) ''password'' []))
             (\<lambda>err. and_then (logger Debug CouldNotLoadConnectivity
                                 [ArgText (device_name dev), ArgExn err])
                      (\<lambda>_. modify (\<lambda>s. s\<lparr>attr_native_value := Some ''Unknown''\<rparr>)))
             (t\<lparr>requests := requests t @ [probe_request (host dev)]\<rparr>)"
proof -
  obtain g' where g': "probe_gen net (host dev) t =
      (Returns g', t\<lparr>requests := requests t @ [probe_request (host dev)]\<rparr>)"
    using probe_gen_total by blast
  with detect have "g' = g" by (simp add: detect_generation_def)
  with g' cls show ?thesis
    by (simp add: load_connectivity_config_def detect_generation_def Let_def
          and_then_def try_except_def lift_def)
qed


lemma try_except_returned:
  assumes "fst (m s) = Returns v"
  shows "try_except m h s = m s"
  using assms by (cases "m s") (simp add: try_except_def)

lemma load_gen1_coiot_cred_raises:
  assumes "reader_auth u p = Raises e"
  shows "load_gen1_coiot str_of net dev u p t = (Raises e, t)"
  using assms by (simp add: load_gen1_coiot_def prog_defs)

lemma load_gen2_websocket_cred_raises:
  assumes "reader_auth u p = Raises e"
  shows "load_gen2_websocket str_of net dev u p t = (Raises e, t)"
  using assms by (simp add: load_gen2_websocket_def prog_defs)

lemma load_gen1_coiot_ok:
  assumes "reader_auth u p = Returns a"
      and "net (settings_request (host dev) a) = Answers (Response 200 (Some data))"
      and "py_get data ''coiot'' (JObj []) = Returns coiot"
      and "py_get coiot ''peer'' (JStr []) = Returns peer"
  shows "fst (load_gen1_coiot str_of net dev u p t) = Returns () \<and>
         attr_native_value (snd (load_gen1_coiot str_of net dev u p t)) =
           Some (if py_truthy peer then ''CoIoT: unicast '' @ py_format str_of peer
                 else ''CoIoT: mcast (multicast)'')"
  using assms
  by (cases "py_truthy peer") (auto simp add: load_gen1_coiot_def prog_defs resp_json_def)

lemma load_gen1_coiot_401:
  assumes "reader_auth u p = Returns a"
      and "net (settings_request (host dev) a) = Answers (Response 401 b)"
  shows "fst (load_gen1_coiot str_of net dev u p t) = Returns () \<and>
         attr_native_value (snd (load_gen1_coiot str_of net dev u p t)) =
           Some ''CoIoT: Unknown (auth required)''"
  using assms by (simp add: load_gen1_coiot_def prog_defs)

lemma load_gen2_websocket_ok:
  assumes "reader_auth u p = Returns a"
      and "net (get_config_request (host dev) a) = Answers (Response 200 (Some data))"
      and "py_get data ''ws'' (JObj []) = Returns ws"
      and "py_get ws ''server'' (JStr []) = Returns server"
  shows "fst (load_gen2_websocket str_of net dev u p t) = Returns () \<and>
         attr_native_value (snd (load_gen2_websocket str_of net dev u p t)) =
           Some (if py_truthy server then ''WebSocket: '' @ py_format str_of server
                 else ''WebSocket: Not configured (uses mDNS)'')"
  using assms
  by (cases "py_truthy server") (simp_all add: load_gen2_websocket_def prog_defs resp_json_def)

lemma load_gen2_websocket_401:
  assumes "reader_auth u p = Returns a"
      and "net (get_config_request (host dev) a) = Answers (Response 401 b)"
  shows "fst (load_gen2_websocket str_of net dev u p t) = Returns () \<and>
         attr_native_value (snd (load_gen2_websocket str_of net dev u p t)) =
           Some ''WebSocket: Unknown (auth required)''"
  using assms by (simp add: load_gen2_websocket_def prog_defs)

lemma load_gen2_websocket_raises:
  assumes "reader_auth u p = Returns a"
      and "net (get_config_request (host dev) a) = Fails e \<or>
           net (get_config_request (host dev) a) = Answers (Response 200 None)"
  shows "fst (load_gen2_websocket str_of net dev u p t) = Returns () \<and>
         attr_native_value (snd (load_gen2_websocket str_of net dev u p t)) =
           Some ''WebSocket: Auto-discovery (mDNS)''"
  using assms by (auto simp add: load_gen2_websocket_def prog_defs resp_json_def)

lemma load_gen2_websocket_malformed:
  assumes "reader_auth u p = Returns a"
      and "net (get_config_request (host dev) a) = Answers (Response 200 (Some data))"
      and "py_get data ''ws'' (JObj []) = Raises e \<or>
           (\<exists>ws. py_get data ''ws'' (JObj []) = Returns ws \<and>
                 py_get ws ''server'' (JStr []) = Raises e)"
  shows "fst (load_gen2_websocket str_of net dev u p t) = Returns () \<and>
         attr_native_value (snd (load_gen2_websocket str_of net dev u p t)) =
           Some ''WebSocket: Auto-discovery (mDNS)''"
  using assms by (auto simp add: load_gen2_websocket_def prog_defs resp_json_def)

text \<open>
  Scenarios A and B of the specification on the code: the sensor value carries the
  prefix of its dialect, so it is neither the bare server URL nor the bare word
  \<open>multicast\<close>.
\<close>

theorem describe_verbatim_counterexample:
  "attr_native_value (snd (load_connectivity_config str_unused gen3_net plug init_sensor)) =
     Some ''WebSocket: wss://example/ws'' \<and>
   attr_native_value (snd (load_connectivity_config str_unused gen3_net plug init_sensor)) \<noteq>
     Some ''wss://example/ws'' \<and>
   attr_native_value (snd (load_connectivity_config str_unused gen1_net plug init_sensor)) =
     Some ''CoIoT: mcast (multicast)'' \<and>
   attr_native_value (snd (load_connectivity_config str_unused gen1_net plug init_sensor)) \<noteq>
     Some ''multicast''"
  by (simp add: load_connectivity_config_def detect_generation_def probe_gen_def
        load_gen2_websocket_def load_gen1_coiot_def prog_defs req_defs scenario_defs
        gen3_net_def gen1_net_def Let_def)

text \<open>
  C9, with the strings of the code. Let the probe classify the device (\<open>gen >= 2\<close> or
  not) and let the reader credentials \<open>a\<close> be built. Gen1, settings answered 200:
  \<open>CoIoT: mcast (multicast)\<close> for an empty or missing peer, \<open>CoIoT: unicast <peer>\<close>
  otherwise; answered 401: \<open>CoIoT: Unknown (auth required)\<close>. Gen2/3, \<open>Sys.GetConfig\<close>
  answered 200: \<open>WebSocket: <server>\<close> for a configured server, \<open>WebSocket: Not
  configured (uses mDNS)\<close> for an empty or missing one; answered 401: \<open>WebSocket: Unknown
  (auth required)\<close>; the call raising, its body not decodable, or the body or its \<open>ws\<close>
  field not a JSON object: \<open>WebSocket: Auto-discovery (mDNS)\<close>. When the library
  refuses the reader credentials (user name and password both set, a colon in the user
  name), no configuration call is made and the value is \<open>Unknown\<close> in both dialects.
\<close>

theorem describe_strings:
  assumes detect: "fst (detect_generation net dev t) = Returns g"
      and cls: "py_ge_int g 2 = Returns rpc"
  shows
   "(\<not> rpc \<longrightarrow>
       reader_auth (dict_get (entry dev) ''username'' [])
         (dict_get (entry dev) ''password'' []) = Returns a \<longrightarrow>
       net (settings_request (host dev) a) = Answers (Response 200 (Some data)) \<longrightarrow>
       py_get data ''coiot'' (JObj []) = Returns coiot \<longrightarrow>
       py_get coiot ''peer'' (JStr []) = Returns peer \<longrightarrow>
       attr_native_value (snd (load_connectivity_config str_of net dev t)) =
         Some (if py_truthy peer then ''CoIoT: unicast '' @ py_format str_of peer
               else ''CoIoT: mcast (multicast)'')) \<and>
    (\<not> rpc \<longrightarrow>
       reader_auth (dict_get (entry dev) ''username'' [])
         (dict_get (entry dev) ''password'' []) = Returns a \<longrightarrow>
       net (settings_request (host dev) a) = Answers (Response 401 b) \<longrightarrow>
       attr_native_value (snd (load_connectivity_config str_of net dev t)) =
         Some ''CoIoT: Unknown (auth required)'') \<and>
    (rpc \<longrightarrow>
       reader_auth (dict_get (entry dev) ''username'' [])
         (dict_get (entry dev) ''password'' []) = Returns a \<longrightarrow>
       net (get_config_request (host dev) a) = Answers (Response 200 (Some data)) \<longrightarrow>
       py_get data ''ws'' (JObj []) = Returns ws \<longrightarrow>
       py_get ws ''server'' (JStr []) = Returns server \<longrightarrow>
       attr_native_value (snd (load_connectivity_config str_of net dev t)) =
         Some (if py_truthy server then ''WebSocket: '' @ py_format str_of server
               else ''WebSocket: Not configured (uses mDNS)'')) \<and>
    (rpc \<longrightarrow>
       reader_auth (dict_get (entry dev) ''username'' [])
         (dict_get (entry dev) ''password'' []) = Returns a \<longrightarrow>
       net (get_config_request (host dev) a) = Answers (Response 401 b) \<longrightarrow>
       attr_native_value (snd (load_connectivity_config str_of net dev t)) =
         Some ''WebSocket: Unknown (auth required)'') \<and>
    (rpc \<longrightarrow>
       reader_auth (dict_get (entry dev) ''username'' [])
         (dict_get (entry dev) ''password'' []) = Returns a \<longrightarrow>
       (net (get_config_request (host dev) a) = Fails e \<or>
        net (get_config_request (host dev) a) = Answers (Response 200 None)) \<longrightarrow>
       attr_native_value (snd (load_connectivity_config str_of net dev t)) =
         Some ''WebSocket: Auto-discovery (mDNS)'') \<and>
    (rpc \<longrightarrow>
       reader_auth (dict_get (entry dev) ''username'' [])
         (dict_get (entry dev) ''password'' []) = Returns a \<longrightarrow>
       net (get_config_request (host dev) a) = Answers (Response 200 (Some data)) \<longrightarrow>
       (py_get data ''ws'' (JObj []) = Raises e \<or>
        (\<exists>ws. py_get data ''ws'' (JObj []) = Returns ws \<and>
              py_get ws ''server'' (JStr []) = Raises e)) \<longrightarrow>
       attr_native_value (snd (load_connectivity_config str_of net dev t)) =
         Some ''WebSocket: Auto-discovery (mDNS)'') \<and>
    (reader_auth (dict_get (entry dev) ''username'' [])
       (dict_get (entry dev) ''password'' []) = Raises e \<longrightarrow>
       attr_native_value (snd (load_connectivity_config str_of net dev t)) = Some ''Unknown'' \<and>
       requests (snd (load_connectivity_config str_of net dev t)) =
         requests t @ [probe_request (host dev)])"
proof -
  let ?u = "dict_get (entry dev) ''username'' []"
  let ?p = "dict_get (entry dev) ''password'' []"
  let ?t1 = "t\<lparr>requests := requests t @ [probe_request (host dev)]\<rparr>"
  note d = load_connectivity_config_dispatch [OF detect cls]
  have c1: "attr_native_value (snd (load_connectivity_config str_of net dev t)) =
         Some (if py_truthy peer then ''CoIoT: unicast '' @ py_format str_of peer
               else ''CoIoT: mcast (multicast)'')"
    if "\<not> rpc" and cred: "reader_auth ?u ?p = Returns a"
      and ans: "net (settings_request (host dev) a) = Answers (Response 200 (Some data))"
      and g1: "py_get data ''coiot'' (JObj []) = Returns coiot"
      and g2: "py_get coiot ''peer'' (JStr []) = Returns peer"
    using that(1) load_gen1_coiot_ok [where net = net and dev = dev and str_of = str_of and t = "?t1", OF cred ans g1 g2]
    by (simp add: d try_except_returned)
  have c2: "attr_native_value (snd (load_connectivity_config str_of net dev t)) =
         Some ''CoIoT: Unknown (auth required)''"
    if "\<not> rpc" and cred: "reader_auth ?u ?p = Returns a"
      and ans: "net (settings_request (host dev) a) = Answers (Response 401 b)"
    using that(1) load_gen1_coiot_401 [where net = net and dev = dev and str_of = str_of and t = "?t1", OF cred ans]
    by (simp add: d try_except_returned)
  have c3: "attr_native_value (snd (load_connectivity_config str_of net dev t)) =
         Some (if py_truthy server then ''WebSocket: '' @ py_format str_of server
               else ''WebSocket: Not configured (uses mDNS)'')"
    if "rpc" and cred: "reader_auth ?u ?p = Returns a"
      and ans: "net (get_config_request (host dev) a) = Answers (Response 200 (Some data))"
      and g1: "py_get data ''ws'' (JObj []) = Returns ws"
      and g2: "py_get ws ''server'' (JStr []) = Returns server"
    using that(1) load_gen2_websocket_ok [where net = net and dev = dev and str_of = str_of and t = "?t1", OF cred ans g1 g2]
    by (simp add: d try_except_returned)
  have c4: "attr_native_value (snd (load_connectivity_config str_of net dev t)) =
         Some ''WebSocket: Unknown (auth required)''"
    if "rpc" and cred: "reader_auth ?u ?p = Returns a"
      and ans: "net (get_config_request (host dev) a) = Answers (Response 401 b)"
    using that(1) load_gen2_websocket_401 [where net = net and dev = dev and str_of = str_of and t = "?t1", OF cred ans]
    by (simp add: d try_except_returned)
  have c5: "attr_native_value (snd (load_connectivity_config str_of net dev t)) =
         Some ''WebSocket: Auto-discovery (mDNS)''"
    if "rpc" and cred: "reader_auth ?u ?p = Returns a"
      and ans: "net (get_config_request (host dev) a) = Fails e \<or>
                net (get_config_request (host dev) a) = Answers (Response 200 None)"
    using that(1) load_gen2_websocket_raises [where net = net and dev = dev and str_of = str_of and t = "?t1", OF cred ans]
    by (simp add: d try_except_returned)
  have c6: "attr_native_value (snd (load_connectivity_config str_of net dev t)) =
         Some ''WebSocket: Auto-discovery (mDNS)''"
    if "rpc" and cred: "reader_auth ?u ?p = Returns a"
      and ans: "net (get_config_request (host dev) a) = Answers (Response 200 (Some data))"
      and bad: "py_get data ''ws'' (JObj []) = Raises e \<or>
                (\<exists>ws. py_get data ''ws'' (JObj []) = Returns ws \<and>
                      py_get ws ''server'' (JStr []) = Raises e)"
    using that(1) load_gen2_websocket_malformed [where net = net and dev = dev and str_of = str_of and t = "?t1", OF cred ans bad]
    by (simp add: d try_except_returned)
  have c7: "attr_native_value (snd (load_connectivity_config str_of net dev t)) = Some ''Unknown'' \<and>
       requests (snd (load_connectivity_config str_of net dev t)) =
         requests t @ [probe_request (host dev)]"
    if cred: "reader_auth ?u ?p = Raises e"
    by (cases rpc)
       (simp_all add: d try_except_def prog_defs load_gen1_coiot_cred_raises [OF cred]
          load_gen2_websocket_cred_raises [OF cred])
  from c1 c2 c3 c4 c5 c6 c7 show ?thesis by blast
qed

theorem describe_strings_witness:
  "fst (detect_generation gen1_net plug init_sensor) = Returns (JInt 1) \<and>
   py_ge_int (JInt 1) 2 = Returns False \<and>
   fst (detect_generation gen3_net plug init_sensor) = Returns (JInt 3) \<and>
   py_ge_int (JInt 3) 2 = Returns True \<and>
   reader_auth (dict_get (entry plug) ''username'' []) (dict_get (entry plug) ''password'' []) =
     Returns None \<and>
   attr_native_value (snd (load_connectivity_config str_unused gen1_net plug init_sensor)) =
     Some ''CoIoT: mcast (multicast)'' \<and>
   attr_native_value (snd (load_connectivity_config str_unused gen1_unicast_net plug init_sensor)) =
     Some ''CoIoT: unicast 10.0.0.2:5683'' \<and>
   attr_native_value (snd (load_connectivity_config str_unused gen1_locked_net plug init_sensor)) =
     Some ''CoIoT: Unknown (auth required)'' \<and>
   attr_native_value (snd (load_connectivity_config str_unused gen3_net plug init_sensor)) =
     Some ''WebSocket: wss://example/ws'' \<and>
   attr_native_value (snd (load_connectivity_config str_unused gen3_plain_net plug init_sensor)) =
     Some ''WebSocket: Not configured (uses mDNS)'' \<and>
   attr_native_value (snd (load_connectivity_config str_unused gen3_locked_net plug init_sensor)) =
     Some ''WebSocket: Unknown (auth required)'' \<and>
   attr_native_value (snd (load_connectivity_config str_unused gen3_silent_net plug init_sensor)) =
     Some ''WebSocket: Auto-discovery (mDNS)'' \<and>
   fst (detect_generation gen3_net colon_plug init_sensor) = Returns (JInt 3) \<and>
   reader_auth (dict_get (entry colon_plug) ''username'' [])
     (dict_get (entry colon_plug) ''password'' []) = Raises ValueError \<and>
   attr_native_value (snd (load_connectivity_config str_unused gen3_net colon_plug init_sensor)) =
     Some ''Unknown'' \<and>
   attr_native_value (snd (load_connectivity_config str_unused gen1_net colon_plug init_sensor)) =
     Some ''Unknown''"
proof -
  have lo: "py_ge_int (JInt 1) 2 = Returns False" by simp
  have hi: "py_ge_int (JInt 3) 2 = Returns True" by simp
  have cr: "reader_auth (dict_get (entry plug) ''username'' [])
              (dict_get (entry plug) ''password'' []) = Returns None"
    by (simp add: reader_auth_def dict_get_def plug_def)
  have d0: "fst (detect_generation gen1_net plug init_sensor) = Returns (JInt 1)"
    by (simp add: detect_generation_def probe_gen_def prog_defs req_defs scenario_defs
          gen1_net_def)
  have r0: "attr_native_value (snd (load_connectivity_config str_unused gen1_net plug init_sensor)) =
     Some ''CoIoT: mcast (multicast)''"
    using describe_strings [where net = gen1_net and dev = plug and t = init_sensor
        and str_of = str_unused and a = None
        and data = "JObj [(''auth'', JBool True), (''coiot'', JObj [(''peer'', JStr [])])]"
        and coiot = "JObj [(''peer'', JStr [])]" and peer = "JStr []",
        OF d0 lo] cr
    by (simp add: gen1_net_def settings_request_def shelly_url_def plug_def)
  have d1: "fst (detect_generation gen1_unicast_net plug init_sensor) = Returns (JInt 1)"
    by (simp add: detect_generation_def probe_gen_def prog_defs req_defs scenario_defs
          gen1_unicast_net_def)
  have r1: "attr_native_value (snd (load_connectivity_config str_unused gen1_unicast_net plug init_sensor)) =
     Some ''CoIoT: unicast 10.0.0.2:5683''"
    using describe_strings [where net = gen1_unicast_net and dev = plug and t = init_sensor
        and str_of = str_unused and a = None
        and data = "JObj [(''coiot'', JObj [(''peer'', JStr ''10.0.0.2:5683'')])]"
        and coiot = "JObj [(''peer'', JStr ''10.0.0.2:5683'')]"
        and peer = "JStr ''10.0.0.2:5683''",
        OF d1 lo] cr
    by (simp add: gen1_unicast_net_def settings_request_def shelly_url_def plug_def)
  have d2: "fst (detect_generation gen1_locked_net plug init_sensor) = Returns (JInt 1)"
    by (simp add: detect_generation_def probe_gen_def prog_defs req_defs scenario_defs
          gen1_locked_net_def)
  have r2: "attr_native_value (snd (load_connectivity_config str_unused gen1_locked_net plug init_sensor)) =
     Some ''CoIoT: Unknown (auth required)''"
    using describe_strings [where net = gen1_locked_net and dev = plug and t = init_sensor
        and str_of = str_unused and a = None and b = None,
        OF d2 lo] cr
    by (simp add: gen1_locked_net_def settings_request_def shelly_url_def plug_def)
  have d3: "fst (detect_generation gen3_net plug init_sensor) = Returns (JInt 3)"
    by (simp add: detect_generation_def probe_gen_def prog_defs req_defs scenario_defs
          gen3_net_def)
  have r3: "attr_native_value (snd (load_connectivity_config str_unused gen3_net plug init_sensor)) =
     Some ''WebSocket: wss://example/ws''"
    using describe_strings [where net = gen3_net and dev = plug and t = init_sensor
        and str_of = str_unused and a = None
        and data = "JObj [(''ws'', JObj [(''server'', JStr ''wss://example/ws'')])]"
        and ws = "JObj [(''server'', JStr ''wss://example/ws'')]"
        and server = "JStr ''wss://example/ws''",
        OF d3 hi] cr
    by (simp add: gen3_net_def get_config_request_def shelly_url_def plug_def)
  have d4: "fst (detect_generation gen3_plain_net plug init_sensor) = Returns (JInt 3)"
    by (simp add: detect_generation_def probe_gen_def prog_defs req_defs scenario_defs
          gen3_plain_net_def)
  have r4: "attr_native_value (snd (load_connectivity_config str_unused gen3_plain_net plug init_sensor)) =
     Some ''WebSocket: Not configured (uses mDNS)''"
    using describe_strings [where net = gen3_plain_net and dev = plug and t = init_sensor
        and str_of = str_unused and a = None
        and data = "JObj []" and ws = "JObj []" and server = "JStr []",
        OF d4 hi] cr
    by (simp add: gen3_plain_net_def get_config_request_def shelly_url_def plug_def)
  have d5: "fst (detect_generation gen3_locked_net plug init_sensor) = Returns (JInt 3)"
    by (simp add: detect_generation_def probe_gen_def prog_defs req_defs scenario_defs
          gen3_locked_net_def)
  have r5: "attr_native_value (snd (load_connectivity_config str_unused gen3_locked_net plug init_sensor)) =
     Some ''WebSocket: Unknown (auth required)''"
    using describe_strings [where net = gen3_locked_net and dev = plug and t = init_sensor
        and str_of = str_unused and a = None and b = None,
        OF d5 hi] cr
    by (simp add: gen3_locked_net_def get_config_request_def shelly_url_def plug_def)
  have d6: "fst (detect_generation gen3_silent_net plug init_sensor) = Returns (JInt 3)"
    by (simp add: detect_generation_def probe_gen_def prog_defs req_defs scenario_defs
          gen3_silent_net_def)
  have r6: "attr_native_value (snd (load_connectivity_config str_unused gen3_silent_net plug init_sensor)) =
     Some ''WebSocket: Auto-discovery (mDNS)''"
    using describe_strings [where net = gen3_silent_net and dev = plug and t = init_sensor
        and str_of = str_unused and a = None and e = TimeoutError,
        OF d6 hi] cr
    by (simp add: gen3_silent_net_def get_config_request_def shelly_url_def plug_def)
  have cc: "reader_auth (dict_get (entry colon_plug) ''username'' [])
     (dict_get (entry colon_plug) ''password'' []) = Raises ValueError"
    by (simp add: reader_auth_def new_basic_auth_def dict_get_def colon_plug_def)
  have d7: "fst (detect_generation gen3_net colon_plug init_sensor) = Returns (JInt 3)"
    by (simp add: detect_generation_def probe_gen_def prog_defs req_defs scenario_defs
          gen3_net_def)
  have r7: "attr_native_value (snd (load_connectivity_config str_unused gen3_net colon_plug
                init_sensor)) = Some ''Unknown''"
    using describe_strings [where net = gen3_net and dev = colon_plug and t = init_sensor
        and str_of = str_unused and e = ValueError, OF d7 hi] cc
    by blast
  have d8: "fst (detect_generation gen1_net colon_plug init_sensor) = Returns (JInt 1)"
    by (simp add: detect_generation_def probe_gen_def prog_defs req_defs scenario_defs
          gen1_net_def)
  have r8: "attr_native_value (snd (load_connectivity_config str_unused gen1_net colon_plug
                init_sensor)) = Some ''Unknown''"
    using describe_strings [where net = gen1_net and dev = colon_plug and t = init_sensor
        and str_of = str_unused and e = ValueError, OF d8 lo] cc
    by blast
  from d0 lo d3 hi cr r0 r1 r2 r3 r4 r5 r6 d7 cc r7 r8 show ?thesis by blast
qed

section \<open>No exception leaves an operation\<close>
























section \<open>Detection on a generation field that is not a number\<close>

text \<open>
  C4 at the body \<open>{"gen": "2"}\<close>, status 200. \<open>_detect_generation\<close> returns the string
  \<open>"2"\<close>, not an \<open>int\<close>; the comparison \<open>gen >= 2\<close> of the caller raises \<open>TypeError\<close>.
  The sensor ends with the value \<open>Unknown\<close> and never asks for the configuration;
  \<open>_set_auth\<close> logs an error and sends no mutation call. No generation is selected.
\<close>

theorem detect_generation_string_gen:
  "string_gen_net \<lparr>meth = GET, url = ''http://10.0.0.7/shelly'', params = None,
                   json_payload = None, auth = None, timeout = 3\<rparr> =
     Answers (Response 200 (Some (JObj [(''gen'', JStr ''2'')]))) \<and>
   fst (detect_generation string_gen_net plug init_sensor) = Returns (JStr ''2'') \<and>
   py_ge_int (JStr ''2'') 2 = Raises TypeError \<and>
   load_connectivity_config str_unused string_gen_net plug init_sensor =
     (Returns (),
      \<lparr>logged = [LogRecord Debug CouldNotLoadConnectivity [ArgText ''plug'', ArgExn TypeError]],
       requests = [probe_request ''10.0.0.7''], ha_state_writes = 0,
       attr_native_value = Some ''Unknown''\<rparr>) \<and>
   set_auth string_gen_net plug_switch True init_switch =
     (Returns (),
      \<lparr>logged = [LogRecord Error ErrorSettingAuth
                   [ArgText ''plug'', ArgText ''10.0.0.7'', ArgExn TypeError]],
       requests = [probe_request ''10.0.0.7''], ha_state_writes = 0, attr_is_on = JNull\<rparr>)"
  by (simp add: load_connectivity_config_def detect_generation_def set_auth_def probe_gen_def
        prog_defs req_defs scenario_defs string_gen_net_def Let_def)

end
